theory Spec2Isabelle
  imports Complex_Main
begin

section \<open>Values and external collaborators\<close>

text \<open>
  JavaScript numbers are modelled as reals: the properties below only add, subtract
  and multiply small values, and none of them depends on rounding.
  \<open>St.Side\<close> has four values; the corners only ever use \<open>LEFT\<close> and \<open>RIGHT\<close>.
\<close>

datatype side = TOP | RIGHT | BOTTOM | LEFT

record rgba =
  red :: nat
  green :: nat
  blue :: nat
  alpha :: nat

definition opaque_black :: rgba where
  "opaque_black = \<lparr>red = 0, green = 0, blue = 0, alpha = 255\<rparr>"

text \<open>
  A theme node (\<open>St.ThemeNode\<close>). Each native lookup returns the array \<open>[found, value]\<close>,
  a pair here.
\<close>

record theme_node =
  lookup_length :: "string \<Rightarrow> bool \<times> real"
  lookup_double :: "string \<Rightarrow> bool \<times> real"
  lookup_color :: "string \<Rightarrow> bool \<times> rgba"

text \<open>
  Modelled from the spec: the settings store, whose implementation is not part of the
  sources at hand. It exposes the flags \<open>FORCE_EXTENSION_VALUES\<close> and \<open>DEBUG\<close>, named
  properties (numbers and colour strings) read with \<open>get_property(name).get()\<close> and
  written with \<open>.set(v)\<close>, and the list of its keys. \<open>writes\<close> records every \<open>.set\<close>
  call in order, so that "no further write" can be stated.
\<close>

record settings_store =
  FORCE_EXTENSION_VALUES :: bool
  DEBUG :: bool
  num_props :: "string \<Rightarrow> real"
  str_props :: "string \<Rightarrow> string"
  keys :: "string list"
  writes :: "(string \<times> string) list"

definition set_str_property :: "string \<Rightarrow> string \<Rightarrow> settings_store \<Rightarrow> settings_store" where
  "set_str_property name v s =
     s\<lparr>str_props := (str_props s)(name := v), writes := writes s @ [(name, v)]\<rparr>"

text \<open>\<open>prop.slice(1)\<close>: the property name without its leading dash.\<close>

definition slice1 :: "string \<Rightarrow> string" where
  "slice1 prop = drop 1 prop"

section \<open>The theme lookups\<close>

text \<open>
  \<open>use_extension_values = node && settings.FORCE_EXTENSION_VALUES.get()\<close>.
  \<open>lookup\<close> starts as the empty array \<open>[]\<close>, whose element 0 is undefined (falsy) and whose
  element 1 is never read while element 0 is falsy: \<open>(False, d)\<close> here, for a value \<open>d\<close> that
  no result depends on. It is replaced by the native lookup only under
  \<open>if (use_extension_values)\<close>.
\<close>

definition lookup_for_length ::
  "theme_node option \<Rightarrow> string \<Rightarrow> settings_store \<Rightarrow> real \<Rightarrow> real" where
  "lookup_for_length node prop settings scale_factor =
     (let use_extension_values = (node \<noteq> None \<and> FORCE_EXTENSION_VALUES settings);
          lookup = (case node of
                      Some n \<Rightarrow> if use_extension_values then lookup_length n prop else (False, 0)
                    | None \<Rightarrow> (False, 0))
      in if use_extension_values \<or> \<not> fst lookup
         then (let length = num_props settings (slice1 prop)
               in length * scale_factor)
         else snd lookup)"

definition lookup_for_double ::
  "theme_node option \<Rightarrow> string \<Rightarrow> settings_store \<Rightarrow> real" where
  "lookup_for_double node prop settings =
     (let use_extension_values = (node \<noteq> None \<and> FORCE_EXTENSION_VALUES settings);
          lookup = (case node of
                      Some n \<Rightarrow> if use_extension_values then lookup_double n prop else (False, 0)
                    | None \<Rightarrow> (False, 0))
      in if use_extension_values \<or> \<not> fst lookup
         then num_props settings (slice1 prop)
         else snd lookup)"

text \<open>
  \<open>color_from_string\<close> (Clutter's or Cogl's, whichever the shell has) is a parameter; it
  returns \<open>[ok, color]\<close>. The result is the colour and the settings store after the call.
\<close>

definition lookup_for_color ::
  "theme_node option \<Rightarrow> string \<Rightarrow> settings_store \<Rightarrow> (string \<Rightarrow> bool \<times> rgba)
     \<Rightarrow> rgba \<times> settings_store" where
  "lookup_for_color node prop settings color_from_string =
     (let use_extension_values = (node \<noteq> None \<and> FORCE_EXTENSION_VALUES settings);
          lookup = (case node of
                      Some n \<Rightarrow> if use_extension_values then lookup_color n prop
                                else (False, opaque_black)
                    | None \<Rightarrow> (False, opaque_black))
      in if use_extension_values \<or> \<not> fst lookup
         then (let color_str = str_props settings (slice1 prop);
                   color_parsed = color_from_string color_str
               in if fst color_parsed
                  then (snd color_parsed, settings)
                  else (snd (color_from_string ''#000000ff''),
                        set_str_property (slice1 prop) ''#000000ff'' settings))
         else (snd lookup, settings))"

section \<open>The shell as one PanelCorners controller sees it\<close>

text \<open>
  The code is single-threaded and event-driven: every method runs to completion on one
  state. Objects that the code shares by reference (corner elements, debounced closures)
  live in stores indexed by a number, so that a closure keeps naming its corner after the
  corner was destroyed.
\<close>

record ActorBox =
  box_x1 :: real
  box_y1 :: real
  box_x2 :: real
  box_y2 :: real

text \<open>
  A \<open>PanelCorner\<close>: its private fields, and the part of the \<open>Clutter.Actor\<close> state that its
  methods read or write (natural size as \<open>get_preferred_width(-1)\<close> and
  \<open>get_preferred_height(-1)\<close> report it, allocation, translation, the target of the
  running opacity transition, destroyed or not).
\<close>

record PanelCorner =
  side :: side
  position_changed_id :: "nat option"
  size_changed_id :: "nat option"
  cachedRadius :: "real option"
  cachedBorderWidth :: "real option"
  cachedBackgroundColor :: "rgba option"
  cachedOpacity :: "real option"
  natural_width :: real
  natural_height :: real
  allocation :: "ActorBox option"
  translation_y :: real
  opacity_target :: "real option"
  destroyed :: bool

text \<open>
  The closure that \<open>debounce\<close> returns: its variable \<open>timeoutId\<close>, its delay, and the corner
  that the wrapped callback of \<open>update_corner\<close> captured.
\<close>

record debounced =
  timeoutId :: "nat option"
  callback_corner :: nat
  wait :: nat

datatype field = Radius | BorderWidth | BackgroundColor | Opacity

text \<open>What happened, in order: the observable operations of one run.\<close>

datatype event =
    ThemeLookup nat field
  | InvalidateCache nat
  | Allocate nat ActorBox
  | StyleChanged nat
  | TimeoutAdd nat nat
  | SourceRemove nat
  | TimeoutFired nat nat
  | PanelDisconnect nat
  | RemoveChild nat
  | Destroy nat

record world =
  settings :: settings_store
  color_from_string :: "string \<Rightarrow> bool \<times> rgba"
  scale_factor :: real
  stage_theme_node :: "theme_node option"
  panel_width :: real
  panel_height :: real
  panel_style_pseudo_class :: "string option"
  panel_leftCorner :: "nat option"
  panel_rightCorner :: "nat option"
  panel_children :: "nat list"
  panel_style_bindings :: "nat list"
  panel_handlers :: "(nat \<times> string \<times> nat) list"
  next_handler_id :: nat
  corners :: "nat \<Rightarrow> PanelCorner"
  next_corner :: nat
  closures :: "nat \<Rightarrow> debounced"
  next_closure :: nat
  timers :: "(nat \<times> nat \<times> nat) list"
  next_source_id :: nat
  now :: nat
  debouncedStyleUpdate :: "nat option"
  connections :: "(string \<times> nat) list"
  console :: "string list"
  trace :: "event list"

definition log_event :: "event \<Rightarrow> world \<Rightarrow> world" where
  "log_event e w = w\<lparr>trace := trace w @ [e]\<rparr>"

definition upd_corner :: "nat \<Rightarrow> (PanelCorner \<Rightarrow> PanelCorner) \<Rightarrow> world \<Rightarrow> world" where
  "upd_corner this f w = w\<lparr>corners := (corners w)(this := f (corners w this))\<rparr>"

definition upd_closure :: "nat \<Rightarrow> (debounced \<Rightarrow> debounced) \<Rightarrow> world \<Rightarrow> world" where
  "upd_closure d f w = w\<lparr>closures := (closures w)(d := f (closures w d))\<rparr>"

section \<open>debounce\<close>

text \<open>
  The GLib main loop keeps the pending timeouts as (source id, due time, closure), in the
  order they were added; source ids start at 1 and \<open>now\<close> counts milliseconds.
\<close>

definition source_remove :: "nat \<Rightarrow> world \<Rightarrow> world" where
  "source_remove sid w =
     log_event (SourceRemove sid) (w\<lparr>timers := filter (\<lambda>t. fst t \<noteq> sid) (timers w)\<rparr>)"

definition timeout_add :: "nat \<Rightarrow> nat \<Rightarrow> world \<Rightarrow> nat \<times> world" where
  "timeout_add interval d w =
     (let sid = next_source_id w
      in (sid, log_event (TimeoutAdd sid d)
                 (w\<lparr>timers := timers w @ [(sid, now w + interval, d)],
                    next_source_id := sid + 1\<rparr>)))"

text \<open>\<open>debounce(callback, wait)\<close>, for the callback that \<open>update_corner\<close> passes.\<close>

definition debounce :: "nat \<Rightarrow> nat \<Rightarrow> world \<Rightarrow> nat \<times> world" where
  "debounce corner ms w =
     (let d = next_closure w
      in (d, w\<lparr>closures := (closures w)
                   (d := \<lparr>timeoutId = None, callback_corner = corner, wait = ms\<rparr>),
                next_closure := d + 1\<rparr>))"

text \<open>Calling the debounced function.\<close>

definition call_debounced :: "nat \<Rightarrow> world \<Rightarrow> world" where
  "call_debounced d w =
     (let w1 = (case timeoutId (closures w d) of
                  Some t \<Rightarrow> source_remove t w
                | None \<Rightarrow> w);
          (t, w2) = timeout_add (wait (closures w1 d)) d w1
      in upd_closure d (\<lambda>c. c\<lparr>timeoutId := Some t\<rparr>) w2)"

text \<open>\<open>debounced.cancel()\<close>.\<close>

definition cancel :: "nat \<Rightarrow> world \<Rightarrow> world" where
  "cancel d w =
     (case timeoutId (closures w d) of
        Some t \<Rightarrow> upd_closure d (\<lambda>c. c\<lparr>timeoutId := None\<rparr>) (source_remove t w)
      | None \<Rightarrow> w)"

text \<open>
  Modelled from the spec: the connection registry and the change notifications of the
  settings store, neither of which is part of the sources at hand. The registry tracks
  (event name, callback) subscriptions on the settings object; a change of the key \<open>k\<close>
  calls every callback subscribed to \<open>changed::k\<close>, in the order of subscription.
\<close>

definition connections_connect :: "string \<Rightarrow> nat \<Rightarrow> world \<Rightarrow> world" where
  "connections_connect signal d w = w\<lparr>connections := connections w @ [(signal, d)]\<rparr>"

definition disconnect_all :: "world \<Rightarrow> world" where
  "disconnect_all w = w\<lparr>connections := []\<rparr>"

definition emit_changed :: "string \<Rightarrow> world \<Rightarrow> world" where
  "emit_changed key w =
     fold call_debounced
       (map snd (filter (\<lambda>c. fst c = ''changed::'' @ key) (connections w))) w"

text \<open>
  Installing the store that a lookup returned: a lookup that wrote a property notifies
  the subscribers of that property.
\<close>

definition commit_settings :: "settings_store \<Rightarrow> world \<Rightarrow> world" where
  "commit_settings s' w =
     fold emit_changed (map fst (drop (length (writes (settings w))) (writes s')))
       (w\<lparr>settings := s'\<rparr>)"

section \<open>PanelCorner\<close>

definition invalidateCache :: "nat \<Rightarrow> world \<Rightarrow> world" where
  "invalidateCache this w =
     log_event (InvalidateCache this)
       (upd_corner this
          (\<lambda>c. c\<lparr>cachedRadius := None, cachedBorderWidth := None,
                 cachedBackgroundColor := None, cachedOpacity := None\<rparr>) w)"

definition getRadius :: "nat \<Rightarrow> theme_node option \<Rightarrow> world \<Rightarrow> real \<times> world" where
  "getRadius this node w =
     (case cachedRadius (corners w this) of
        None \<Rightarrow>
          (let v = lookup_for_length node ''-panel-corner-radius'' (settings w) (scale_factor w)
           in (v, upd_corner this (\<lambda>c. c\<lparr>cachedRadius := Some v\<rparr>)
                    (log_event (ThemeLookup this Radius) w)))
      | Some v \<Rightarrow> (v, w))"

definition getBorderWidth :: "nat \<Rightarrow> theme_node option \<Rightarrow> world \<Rightarrow> real \<times> world" where
  "getBorderWidth this node w =
     (case cachedBorderWidth (corners w this) of
        None \<Rightarrow>
          (let v = lookup_for_length node ''-panel-corner-border-width'' (settings w)
                     (scale_factor w)
           in (v, upd_corner this (\<lambda>c. c\<lparr>cachedBorderWidth := Some v\<rparr>)
                    (log_event (ThemeLookup this BorderWidth) w)))
      | Some v \<Rightarrow> (v, w))"

definition getOpacity :: "nat \<Rightarrow> theme_node option \<Rightarrow> world \<Rightarrow> real \<times> world" where
  "getOpacity this node w =
     (case cachedOpacity (corners w this) of
        None \<Rightarrow>
          (let v = lookup_for_double node ''-panel-corner-opacity'' (settings w)
           in (v, upd_corner this (\<lambda>c. c\<lparr>cachedOpacity := Some v\<rparr>)
                    (log_event (ThemeLookup this Opacity) w)))
      | Some v \<Rightarrow> (v, w))"

definition getBackgroundColor :: "nat \<Rightarrow> theme_node option \<Rightarrow> world \<Rightarrow> rgba \<times> world" where
  "getBackgroundColor this node w =
     (case cachedBackgroundColor (corners w this) of
        None \<Rightarrow>
          (let (v, s') = lookup_for_color node ''-panel-corner-background-color'' (settings w)
                           (color_from_string w)
           in (v, upd_corner this (\<lambda>c. c\<lparr>cachedBackgroundColor := Some v\<rparr>)
                    (commit_settings s' (log_event (ThemeLookup this BackgroundColor) w))))
      | Some v \<Rightarrow> (v, w))"

text \<open>\<open>Main.panel.connect\<close> and \<open>Main.panel.disconnect\<close>; handler ids start at 1.\<close>

definition panel_connect :: "string \<Rightarrow> nat \<Rightarrow> world \<Rightarrow> nat \<times> world" where
  "panel_connect signal corner w =
     (let hid = next_handler_id w
      in (hid, w\<lparr>panel_handlers := panel_handlers w @ [(hid, signal, corner)],
                  next_handler_id := hid + 1\<rparr>))"

definition panel_disconnect :: "nat \<Rightarrow> world \<Rightarrow> world" where
  "panel_disconnect hid w =
     log_event (PanelDisconnect hid)
       (w\<lparr>panel_handlers := filter (\<lambda>h. fst h \<noteq> hid) (panel_handlers w)\<rparr>)"

text \<open>
  \<open>#update_allocation\<close>. A fresh \<open>Clutter.ActorBox\<close> is all zero, which is what the
  \<open>switch\<close> leaves for a side other than \<open>LEFT\<close> and \<open>RIGHT\<close>.
\<close>

definition update_allocation :: "nat \<Rightarrow> world \<Rightarrow> world" where
  "update_allocation this w =
     (let cornerWidth = natural_width (corners w this);
          cornerHeight = natural_height (corners w this);
          allocWidth = panel_width w;
          allocHeight = panel_height w;
          childBox =
            (case side (corners w this) of
               LEFT \<Rightarrow> \<lparr>box_x1 = 0, box_y1 = allocHeight,
                         box_x2 = cornerWidth, box_y2 = allocHeight + cornerHeight\<rparr>
             | RIGHT \<Rightarrow> \<lparr>box_x1 = allocWidth - cornerWidth, box_y1 = allocHeight,
                          box_x2 = allocWidth, box_y2 = allocHeight + cornerHeight\<rparr>
             | _ \<Rightarrow> \<lparr>box_x1 = 0, box_y1 = 0, box_x2 = 0, box_y2 = 0\<rparr>)
      in log_event (Allocate this childBox)
           (upd_corner this (\<lambda>c. c\<lparr>allocation := Some childBox\<rparr>) w))"

text \<open>
  The constructor. A drawing area that was given no size reports the natural size 0 by 0.
  The bound \<open>#update_allocation\<close> handlers are kept with the panel as
  (handler id, signal, corner).
\<close>

definition new_PanelCorner :: "side \<Rightarrow> world \<Rightarrow> nat \<times> world" where
  "new_PanelCorner sd w =
     (let this = next_corner w;
          w1 = w\<lparr>corners := (corners w)
                    (this := \<lparr>side = sd, position_changed_id = None, size_changed_id = None,
                              cachedRadius = None, cachedBorderWidth = None,
                              cachedBackgroundColor = None, cachedOpacity = None,
                              natural_width = 0, natural_height = 0, allocation = None,
                              translation_y = 0, opacity_target = None, destroyed = False\<rparr>),
                 next_corner := this + 1\<rparr>;
          (pid, w2) = panel_connect ''notify::position'' this w1;
          w3 = upd_corner this (\<lambda>c. c\<lparr>position_changed_id := Some pid\<rparr>) w2;
          (zid, w4) = panel_connect ''notify::size'' this w3;
          w5 = upd_corner this (\<lambda>c. c\<lparr>size_changed_id := Some zid\<rparr>) w4
      in (this, update_allocation this w5))"

text \<open>
  \<open>remove_connections\<close>. \<open>if (this.#position_changed_id)\<close> holds for a handler id that is
  neither \<open>null\<close> nor 0.
\<close>

definition remove_connections :: "nat \<Rightarrow> world \<Rightarrow> world" where
  "remove_connections this w =
     (let w1 = (case position_changed_id (corners w this) of
                  Some hid \<Rightarrow>
                    if hid \<noteq> 0
                    then upd_corner this (\<lambda>c. c\<lparr>position_changed_id := None\<rparr>)
                           (panel_disconnect hid w)
                    else w
                | None \<Rightarrow> w)
      in case size_changed_id (corners w1 this) of
           Some hid \<Rightarrow>
             if hid \<noteq> 0
             then upd_corner this (\<lambda>c. c\<lparr>size_changed_id := None\<rparr>)
                    (panel_disconnect hid w1)
             else w1
         | None \<Rightarrow> w1)"

text \<open>\<open>String.prototype.includes\<close>.\<close>

fun str_includes :: "string \<Rightarrow> string \<Rightarrow> bool" where
  "str_includes [] p = (p = [])"
| "str_includes (c # cs) p = (take (length p) (c # cs) = p \<or> str_includes cs p)"

text \<open>
  The condition of the overview override: the flag, then the pseudo-class string being
  truthy (neither \<open>null\<close> nor empty), then its containing \<open>overview\<close>.
\<close>

definition in_overview :: "world \<Rightarrow> bool" where
  "in_overview w =
     (FORCE_EXTENSION_VALUES (settings w) \<and>
      (case panel_style_pseudo_class w of
         None \<Rightarrow> False
       | Some pc \<Rightarrow> pc \<noteq> [] \<and> str_includes pc ''overview''))"

text \<open>
  \<open>vfunc_style_changed\<close>. \<open>get_theme_node()\<close> is \<open>stage_theme_node\<close>; \<open>set_size\<close> fixes the
  natural size; \<open>remove_transition\<close> followed by \<open>ease\<close> replaces the target of the opacity
  transition.
\<close>

definition vfunc_style_changed :: "nat \<Rightarrow> world \<Rightarrow> world" where
  "vfunc_style_changed this w =
     (let w0 = invalidateCache this w;
          node = stage_theme_node w0;
          (cornerRadius, w1) = getRadius this node w0;
          (borderWidth, w2) = getBorderWidth this node w1;
          (opacity0, w3) = getOpacity this node w2;
          opacity = (if in_overview w3 then 0 else opacity0);
          w4 = update_allocation this w3;
          w5 = upd_corner this
                 (\<lambda>c. c\<lparr>natural_width := cornerRadius,
                        natural_height := borderWidth + cornerRadius\<rparr>) w4;
          w6 = upd_corner this (\<lambda>c. c\<lparr>translation_y := - borderWidth\<rparr>) w5;
          w7 = upd_corner this (\<lambda>c. c\<lparr>opacity_target := Some (opacity * 255)\<rparr>) w6
      in log_event (StyleChanged this) w7)"

text \<open>The panel announcing a new position or size.\<close>

definition panel_notify :: "string \<Rightarrow> world \<Rightarrow> world" where
  "panel_notify signal w =
     fold update_allocation
       (map (\<lambda>h. snd (snd h)) (filter (\<lambda>h. fst (snd h) = signal) (panel_handlers w))) w"

section \<open>PanelCorners\<close>

definition SETTINGS_DEBOUNCE_MS :: nat where
  "SETTINGS_DEBOUNCE_MS = 50"

definition log_debug :: "string \<Rightarrow> world \<Rightarrow> world" where
  "log_debug str w =
     (if DEBUG (settings w) then w\<lparr>console := console w @ [''[Panel corners] '' @ str]\<rparr>
      else w)"

definition update_corner :: "nat \<Rightarrow> world \<Rightarrow> world" where
  "update_corner corner w =
     (let w1 = w\<lparr>panel_style_bindings := panel_style_bindings w @ [corner]\<rparr>;
          w2 = w1\<lparr>panel_children := panel_children w1 @ [corner]\<rparr>;
          w3 = vfunc_style_changed corner w2;
          (d, w4) = debounce corner SETTINGS_DEBOUNCE_MS w3;
          w5 = w4\<lparr>debouncedStyleUpdate := Some d\<rparr>
      in fold (\<lambda>key. connections_connect (''changed::'' @ key) d) (keys (settings w5)) w5)"

definition remove_corner :: "nat \<Rightarrow> world \<Rightarrow> world" where
  "remove_corner corner w =
     (let w1 = remove_connections corner w;
          w2 = log_event (RemoveChild corner)
                 (w1\<lparr>panel_children := filter (\<lambda>c. c \<noteq> corner) (panel_children w1)\<rparr>)
      in log_event (Destroy corner) (upd_corner corner (\<lambda>c. c\<lparr>destroyed := True\<rparr>) w2))"

definition remove :: "world \<Rightarrow> world" where
  "remove w =
     (let w1 = (case debouncedStyleUpdate w of
                  Some d \<Rightarrow> (cancel d w)\<lparr>debouncedStyleUpdate := None\<rparr>
                | None \<Rightarrow> w);
          w2 = disconnect_all w1;
          w3 = (case panel_leftCorner w2 of
                  Some c \<Rightarrow> (remove_corner c w2)\<lparr>panel_leftCorner := None\<rparr>
                | None \<Rightarrow> w2)
      in case panel_rightCorner w3 of
           Some c \<Rightarrow> (remove_corner c w3)\<lparr>panel_rightCorner := None\<rparr>
         | None \<Rightarrow> w3)"

definition update :: "world \<Rightarrow> world" where
  "update w =
     (let w0 = log_debug ''updating panel corners...'' w;
          w1 = remove w0;
          (l, w2) = new_PanelCorner LEFT w1;
          w3 = w2\<lparr>panel_leftCorner := Some l\<rparr>;
          (r, w4) = new_PanelCorner RIGHT w3;
          w5 = w4\<lparr>panel_rightCorner := Some r\<rparr>;
          w6 = update_corner l w5;
          w7 = update_corner r w6
      in log_debug ''corners updated.'' w7)"

section \<open>The main loop\<close>

text \<open>
  The timeout callback that the debounced function installs: it clears \<open>timeoutId\<close>, runs
  the wrapped callback (\<open>invalidateCache\<close>, then \<open>vfunc_style_changed\<close>, on the captured
  corner) and returns \<open>SOURCE_REMOVE\<close>, which drops the source.
\<close>

definition run_timeout :: "nat \<Rightarrow> world \<Rightarrow> world" where
  "run_timeout sid w =
     (case find (\<lambda>t. fst t = sid) (timers w) of
        None \<Rightarrow> w
      | Some (_, _, d) \<Rightarrow>
          (let w1 = log_event (TimeoutFired sid d) w;
               w2 = upd_closure d (\<lambda>c. c\<lparr>timeoutId := None\<rparr>) w1;
               corner = callback_corner (closures w2 d);
               w3 = invalidateCache corner w2;
               w4 = vfunc_style_changed corner w3
           in w4\<lparr>timers := filter (\<lambda>t. fst t \<noteq> sid) (timers w4)\<rparr>))"

text \<open>
  Time passing: the clock moves on by \<open>ms\<close> milliseconds and the timeouts that are due by
  then are dispatched in the order they were added.
\<close>

definition advance :: "nat \<Rightarrow> world \<Rightarrow> world" where
  "advance ms w =
     (let w1 = w\<lparr>now := now w + ms\<rparr>
      in fold run_timeout
           (map fst (filter (\<lambda>t. fst (snd t) \<le> now w1) (timers w1))) w1)"

text \<open>
  The state before the controller did anything: nothing attached to the panel, no
  closure, no timeout, no subscription.
\<close>

definition blank_corner :: PanelCorner where
  "blank_corner =
     \<lparr>side = LEFT, position_changed_id = None, size_changed_id = None,
      cachedRadius = None, cachedBorderWidth = None, cachedBackgroundColor = None,
      cachedOpacity = None, natural_width = 0, natural_height = 0, allocation = None,
      translation_y = 0, opacity_target = None, destroyed = False\<rparr>"

definition init_world ::
  "settings_store \<Rightarrow> (string \<Rightarrow> bool \<times> rgba) \<Rightarrow> real \<Rightarrow> theme_node option \<Rightarrow> real \<Rightarrow> real
     \<Rightarrow> string option \<Rightarrow> world" where
  "init_world s parse sf node pw ph pc =
     \<lparr>settings = s, color_from_string = parse, scale_factor = sf, stage_theme_node = node,
      panel_width = pw, panel_height = ph, panel_style_pseudo_class = pc,
      panel_leftCorner = None, panel_rightCorner = None, panel_children = [],
      panel_style_bindings = [], panel_handlers = [], next_handler_id = 1,
      corners = (\<lambda>_. blank_corner), next_corner = 0,
      closures = (\<lambda>_. \<lparr>timeoutId = None, callback_corner = 0, wait = 0\<rparr>), next_closure = 0,
      timers = [], next_source_id = 1, now = 0,
      debouncedStyleUpdate = None, connections = [], console = [], trace = []\<rparr>"

section \<open>Concrete inputs\<close>

text \<open>
  A theme whose node answers every lookup (radius 7, border width 1, opacity 0.25,
  white), a colour parser that knows two strings, and a settings store with radius 10,
  border width 2, opacity 0.5 and an unparsable background colour.
\<close>

definition white :: rgba where
  "white = \<lparr>red = 255, green = 255, blue = 255, alpha = 255\<rparr>"

definition demo_node :: theme_node where
  "demo_node =
     \<lparr>lookup_length = (\<lambda>p. if p = ''-panel-corner-radius'' then (True, 7) else (True, 1)),
      lookup_double = (\<lambda>p. (True, 1 / 4)),
      lookup_color = (\<lambda>p. (True, white))\<rparr>"

definition demo_parse :: "string \<Rightarrow> bool \<times> rgba" where
  "demo_parse str =
     (if str = ''#000000ff'' then (True, opaque_black)
      else if str = ''#ffffffff'' then (True, white)
      else (False, \<lparr>red = 0, green = 0, blue = 0, alpha = 0\<rparr>))"

definition demo_settings :: settings_store where
  "demo_settings =
     \<lparr>FORCE_EXTENSION_VALUES = False, DEBUG = False,
      num_props = (\<lambda>k. if k = ''panel-corner-radius'' then 10
                        else if k = ''panel-corner-border-width'' then 2
                        else 1 / 2),
      str_props = (\<lambda>k. ''not a colour''),
      keys = [''panel-corner-radius'', ''panel-corner-opacity''],
      writes = []\<rparr>"

definition demo_world :: world where
  "demo_world = init_world demo_settings demo_parse 1 (Some demo_node) 1000 40 None"

definition overview_world :: world where
  "overview_world =
     init_world (demo_settings\<lparr>FORCE_EXTENSION_VALUES := True\<rparr>) demo_parse 1
       (Some demo_node) 1000 40 (Some ''overview'')"

section \<open>Notions used by the statements\<close>

text \<open>
  What the lookups of a style-changed pass resolve to in a given state, and the rectangle
  that \<open>#update_allocation\<close> computes there.
\<close>

definition resolved_radius :: "world \<Rightarrow> real" where
  "resolved_radius w =
     lookup_for_length (stage_theme_node w) ''-panel-corner-radius'' (settings w)
       (scale_factor w)"

definition resolved_border_width :: "world \<Rightarrow> real" where
  "resolved_border_width w =
     lookup_for_length (stage_theme_node w) ''-panel-corner-border-width'' (settings w)
       (scale_factor w)"

definition resolved_opacity :: "world \<Rightarrow> real" where
  "resolved_opacity w =
     lookup_for_double (stage_theme_node w) ''-panel-corner-opacity'' (settings w)"

definition corner_box :: "nat \<Rightarrow> world \<Rightarrow> ActorBox" where
  "corner_box this w =
     (case side (corners w this) of
        LEFT \<Rightarrow> \<lparr>box_x1 = 0, box_y1 = panel_height w,
                  box_x2 = natural_width (corners w this),
                  box_y2 = panel_height w + natural_height (corners w this)\<rparr>
      | RIGHT \<Rightarrow> \<lparr>box_x1 = panel_width w - natural_width (corners w this),
                   box_y1 = panel_height w, box_x2 = panel_width w,
                   box_y2 = panel_height w + natural_height (corners w this)\<rparr>
      | _ \<Rightarrow> \<lparr>box_x1 = 0, box_y1 = 0, box_x2 = 0, box_y2 = 0\<rparr>)"

text \<open>
  Sequences of reads. A getter returns a number or a colour; \<open>getter\<close> calls the getter of
  a field, \<open>cached\<close> reads the field's cache and \<open>fresh_lookup\<close> is what the field's
  ThemeLookup function returns in a given state. Between reads the user may edit the
  settings store (any change of its content, announced under one key), and the cache may be
  invalidated. \<open>run\<close> performs a list of such actions on one corner and collects what the
  getters returned.
\<close>

datatype val = Number real | Colour rgba

definition getter :: "field \<Rightarrow> nat \<Rightarrow> theme_node option \<Rightarrow> world \<Rightarrow> val \<times> world" where
  "getter f this node w =
     (case f of
        Radius \<Rightarrow> (Number (fst (getRadius this node w)), snd (getRadius this node w))
      | BorderWidth \<Rightarrow>
          (Number (fst (getBorderWidth this node w)), snd (getBorderWidth this node w))
      | BackgroundColor \<Rightarrow>
          (Colour (fst (getBackgroundColor this node w)), snd (getBackgroundColor this node w))
      | Opacity \<Rightarrow> (Number (fst (getOpacity this node w)), snd (getOpacity this node w)))"

definition cached :: "field \<Rightarrow> PanelCorner \<Rightarrow> val option" where
  "cached f c =
     (case f of
        Radius \<Rightarrow> map_option Number (cachedRadius c)
      | BorderWidth \<Rightarrow> map_option Number (cachedBorderWidth c)
      | BackgroundColor \<Rightarrow> map_option Colour (cachedBackgroundColor c)
      | Opacity \<Rightarrow> map_option Number (cachedOpacity c))"

definition fresh_lookup :: "field \<Rightarrow> theme_node option \<Rightarrow> world \<Rightarrow> val" where
  "fresh_lookup f node w =
     (case f of
        Radius \<Rightarrow>
          Number (lookup_for_length node ''-panel-corner-radius'' (settings w) (scale_factor w))
      | BorderWidth \<Rightarrow>
          Number (lookup_for_length node ''-panel-corner-border-width'' (settings w)
                    (scale_factor w))
      | BackgroundColor \<Rightarrow>
          Colour (fst (lookup_for_color node ''-panel-corner-background-color'' (settings w)
                         (color_from_string w)))
      | Opacity \<Rightarrow> Number (lookup_for_double node ''-panel-corner-opacity'' (settings w)))"

definition lookup_count :: "nat \<Rightarrow> field \<Rightarrow> world \<Rightarrow> nat" where
  "lookup_count this f w = count_list (trace w) (ThemeLookup this f)"

definition user_edit :: "(settings_store \<Rightarrow> settings_store) \<Rightarrow> string \<Rightarrow> world \<Rightarrow> world" where
  "user_edit g key w = emit_changed key (w\<lparr>settings := g (settings w)\<rparr>)"

datatype action =
    Get field "theme_node option"
  | Invalidate
  | Edit "settings_store \<Rightarrow> settings_store" string

fun run :: "nat \<Rightarrow> action list \<Rightarrow> world \<Rightarrow> (field \<times> val) list \<times> world" where
  "run this [] w = ([], w)"
| "run this (Get f node # acts) w =
     ((f, fst (getter f this node w)) # fst (run this acts (snd (getter f this node w))),
      snd (run this acts (snd (getter f this node w))))"
| "run this (Invalidate # acts) w = run this acts (invalidateCache this w)"
| "run this (Edit g key # acts) w = run this acts (user_edit g key w)"

definition results :: "field \<Rightarrow> (field \<times> val) list \<Rightarrow> val list" where
  "results f rs = map snd (filter (\<lambda>r. fst r = f) rs)"

text \<open>Concrete sequences of reads, with an edit that sets the radius to 20.\<close>

definition demo_edit :: "settings_store \<Rightarrow> settings_store" where
  "demo_edit s = s\<lparr>num_props := (num_props s)(''panel-corner-radius'' := 20)\<rparr>"

definition demo_reads :: "action list" where
  "demo_reads =
     [Get Radius (Some demo_node), Edit demo_edit ''panel-corner-radius'', Get Opacity None,
      Get Radius None]"

definition demo_unread :: "action list" where
  "demo_unread = [Get Opacity None, Edit demo_edit ''panel-corner-radius'', Invalidate]"

text \<open>
  The trace of the first \<open>update()\<close>: the two constructors allocate, then one style-changed
  pass per corner, each allocating from the size that the corner had before the pass.
\<close>

definition init_trace :: "real \<Rightarrow> real \<Rightarrow> event list" where
  "init_trace pw ph =
     [Allocate 0 \<lparr>box_x1 = 0, box_y1 = ph, box_x2 = 0, box_y2 = ph\<rparr>,
      Allocate 1 \<lparr>box_x1 = pw, box_y1 = ph, box_x2 = pw, box_y2 = ph\<rparr>,
      InvalidateCache 0, ThemeLookup 0 Radius, ThemeLookup 0 BorderWidth, ThemeLookup 0 Opacity,
      Allocate 0 \<lparr>box_x1 = 0, box_y1 = ph, box_x2 = 0, box_y2 = ph\<rparr>, StyleChanged 0,
      InvalidateCache 1, ThemeLookup 1 Radius, ThemeLookup 1 BorderWidth, ThemeLookup 1 Opacity,
      Allocate 1 \<lparr>box_x1 = pw, box_y1 = ph, box_x2 = pw, box_y2 = ph\<rparr>, StyleChanged 1]"


fun burst :: "(nat \<times> string) list \<Rightarrow> world \<Rightarrow> world" where
  "burst [] w = w"
| "burst ((gap, key) # evs) w = burst evs (emit_changed key (advance gap w))"








definition callback_events :: "nat \<Rightarrow> nat \<Rightarrow> nat \<Rightarrow> ActorBox \<Rightarrow> event list" where
  "callback_events sid d c box =
     [TimeoutFired sid d, InvalidateCache c, InvalidateCache c, ThemeLookup c Radius,
      ThemeLookup c BorderWidth, ThemeLookup c Opacity, Allocate c box, StyleChanged c]"




text \<open>
  Executions. What can happen to a controller and its corners, one event at a time:
  \<open>update()\<close>, \<open>remove()\<close>, the change of a setting, time passing, the panel announcing
  a new position or size, and a style change reaching the corners that are children of
  the panel. An execution is a list of such inputs, performed from the initial state.
\<close>

datatype input = DoUpdate | DoRemove | SettingChanged string | Tick nat | PanelNotify string
  | StyleChange

fun react :: "input \<Rightarrow> world \<Rightarrow> world" where
  "react DoUpdate w = update w"
| "react DoRemove w = remove w"
| "react (SettingChanged key) w = emit_changed key w"
| "react (Tick ms) w = advance ms w"
| "react (PanelNotify signal) w = panel_notify signal w"
| "react StyleChange w = fold vfunc_style_changed (panel_children w) w"

text \<open>
  \<open>early_allocations c\<close> counts the allocations of the corner \<open>c\<close> that a trace holds
  before the first completed style-changed pass of \<open>c\<close> (all of them when there is no
  such pass). An event is about \<open>c\<close> when it is an allocation or a completed pass of \<open>c\<close>.
\<close>

definition about :: "nat \<Rightarrow> event \<Rightarrow> bool" where
  "about c e = (case e of Allocate c' _ \<Rightarrow> c' = c | StyleChanged c' \<Rightarrow> c' = c | _ \<Rightarrow> False)"

fun early_allocations :: "nat \<Rightarrow> event list \<Rightarrow> nat" where
  "early_allocations c [] = 0"
| "early_allocations c (e # es) =
     (if e = StyleChanged c then 0
      else (case e of Allocate c' _ \<Rightarrow> if c' = c then 1 else 0 | _ \<Rightarrow> 0) +
           early_allocations c es)"

text \<open>
  The invariant of executions: every corner made so far has completed a style-changed
  pass after exactly two allocations, and no event is about a corner that does not exist
  yet; handlers, pending timeouts, subscriptions and children only name corners made so
  far. \<open>housekeeping\<close> relates a state to a later one that made no corner, logged
  nothing about any corner and only dropped handlers, timeouts, subscriptions and
  children. \<open>create\<close> is the part of \<open>update()\<close> after \<open>remove()\<close>.
\<close>

definition settled :: "world \<Rightarrow> bool" where
  "settled w =
     (\<forall>c. (c < next_corner w \<longrightarrow>
             StyleChanged c \<in> set (trace w) \<and> early_allocations c (trace w) = 2) \<and>
          (next_corner w \<le> c \<longrightarrow> (\<forall>e \<in> set (trace w). \<not> about c e)))"

definition refs_ok :: "world \<Rightarrow> bool" where
  "refs_ok w =
     ((\<forall>h \<in> set (panel_handlers w). snd (snd h) < next_corner w) \<and>
      (\<forall>t \<in> set (timers w). callback_corner (closures w (snd (snd t))) < next_corner w) \<and>
      (\<forall>cn \<in> set (connections w). callback_corner (closures w (snd cn)) < next_corner w) \<and>
      (\<forall>c \<in> set (panel_children w). c < next_corner w))"

definition housekeeping :: "world \<Rightarrow> world \<Rightarrow> bool" where
  "housekeeping w w' =
     (next_corner w' = next_corner w \<and>
      (\<exists>es. trace w' = trace w @ es \<and> (\<forall>e \<in> set es. \<forall>c. \<not> about c e)) \<and>
      set (panel_handlers w') \<subseteq> set (panel_handlers w) \<and>
      set (timers w') \<subseteq> set (timers w) \<and>
      (\<forall>d. callback_corner (closures w' d) = callback_corner (closures w d)) \<and>
      set (connections w') \<subseteq> set (connections w) \<and>
      set (panel_children w') \<subseteq> set (panel_children w))"

definition create :: "world \<Rightarrow> world" where
  "create w =
     update_corner (Suc (next_corner w))
       (update_corner (next_corner w)
          ((snd (new_PanelCorner RIGHT
              ((snd (new_PanelCorner LEFT w))\<lparr>panel_leftCorner := Some (next_corner w)\<rparr>)))
             \<lparr>panel_rightCorner := Some (Suc (next_corner w))\<rparr>))"

section \<open>The theme lookups: what they return\<close>

text \<open>
  The native lookup is made only when \<open>use_extension_values\<close> holds, and then its result is
  not used; so each lookup returns the settings value, for every node and every flag.
\<close>

lemma lookup_for_length_settings:
  "lookup_for_length node prop s sf = num_props s (slice1 prop) * sf"
  by (cases node) (simp_all add: lookup_for_length_def Let_def)

lemma lookup_for_double_settings:
  "lookup_for_double node prop s = num_props s (slice1 prop)"
  by (cases node) (simp_all add: lookup_for_double_def Let_def)

lemma lookup_for_color_settings:
  "lookup_for_color node prop s parse =
     (if fst (parse (str_props s (slice1 prop)))
      then (snd (parse (str_props s (slice1 prop))), s)
      else (snd (parse ''#000000ff''), set_str_property (slice1 prop) ''#000000ff'' s))"
  by (cases node) (simp_all add: lookup_for_color_def Let_def)

text \<open>
  C1. With forcing disabled, a theme node present and native lookups that succeed
  (radius 7, opacity 0.25, white), the three lookups return the settings values (radius
  10 at scale 1, opacity 0.5, and the repaired colour, opaque black), not the
  theme-native ones.
\<close>

theorem native_lookup_never_returned:
  "\<not> FORCE_EXTENSION_VALUES demo_settings \<and>
   lookup_length demo_node ''-panel-corner-radius'' = (True, 7) \<and>
   lookup_for_length (Some demo_node) ''-panel-corner-radius'' demo_settings 1 = 10 \<and>
   lookup_double demo_node ''-panel-corner-opacity'' = (True, 1 / 4) \<and>
   lookup_for_double (Some demo_node) ''-panel-corner-opacity'' demo_settings = 1 / 2 \<and>
   lookup_color demo_node ''-panel-corner-background-color'' = (True, white) \<and>
   fst (lookup_for_color (Some demo_node) ''-panel-corner-background-color'' demo_settings
          demo_parse) = opaque_black"
  by (simp add: lookup_for_length_def lookup_for_double_def lookup_for_color_def
        demo_node_def demo_settings_def demo_parse_def slice1_def Let_def)

text \<open>
  C7. When the stored colour string does not parse, \<open>lookup_for_color\<close> writes
  \<open>#000000ff\<close> into that setting (one write) and returns opaque black; a second read of the
  repaired store returns opaque black and leaves the store, its write log included, as
  it was. The parser is assumed to read \<open>#000000ff\<close> as opaque black.
\<close>

theorem color_self_repair:
  assumes ok: "parse ''#000000ff'' = (True, opaque_black)"
      and bad: "\<not> fst (parse (str_props s (slice1 prop)))"
  shows "lookup_for_color node prop s parse =
           (opaque_black, set_str_property (slice1 prop) ''#000000ff'' s) \<and>
         str_props (set_str_property (slice1 prop) ''#000000ff'' s) (slice1 prop) =
           ''#000000ff'' \<and>
         writes (set_str_property (slice1 prop) ''#000000ff'' s) =
           writes s @ [(slice1 prop, ''#000000ff'')] \<and>
         lookup_for_color node' prop (set_str_property (slice1 prop) ''#000000ff'' s) parse =
           (opaque_black, set_str_property (slice1 prop) ''#000000ff'' s)"
proof -
  have first: "lookup_for_color node prop s parse =
           (opaque_black, set_str_property (slice1 prop) ''#000000ff'' s)"
    using ok bad by (simp add: lookup_for_color_settings)
  have stored:
    "str_props (set_str_property (slice1 prop) ''#000000ff'' s) (slice1 prop) = ''#000000ff''"
    by (simp add: set_str_property_def)
  have second:
    "lookup_for_color node' prop (set_str_property (slice1 prop) ''#000000ff'' s) parse =
           (opaque_black, set_str_property (slice1 prop) ''#000000ff'' s)"
    using ok stored by (simp add: lookup_for_color_settings)
  show ?thesis using first stored second by (simp add: set_str_property_def)
qed

theorem color_self_repair_witness:
  "demo_parse ''#000000ff'' = (True, opaque_black) \<and>
   \<not> fst (demo_parse (str_props demo_settings (slice1 ''-panel-corner-background-color''))) \<and>
   lookup_for_color (Some demo_node) ''-panel-corner-background-color'' demo_settings
       demo_parse =
     (opaque_black,
      set_str_property ''panel-corner-background-color'' ''#000000ff'' demo_settings) \<and>
   lookup_for_color None ''-panel-corner-background-color''
       (set_str_property ''panel-corner-background-color'' ''#000000ff'' demo_settings)
       demo_parse =
     (opaque_black,
      set_str_property ''panel-corner-background-color'' ''#000000ff'' demo_settings)"
proof -
  have ok: "demo_parse ''#000000ff'' = (True, opaque_black)"
    by (simp add: demo_parse_def)
  have bad:
    "\<not> fst (demo_parse (str_props demo_settings (slice1 ''-panel-corner-background-color'')))"
    by (simp add: demo_parse_def demo_settings_def)
  have sl: "slice1 ''-panel-corner-background-color'' = ''panel-corner-background-color''"
    by (simp add: slice1_def)
  show ?thesis
    using color_self_repair [OF ok bad, of "Some demo_node" None] ok bad
    by (simp add: sl)
qed

section \<open>PanelCorner: the effect of each method\<close>

lemma invalidateCache_eq:
  "invalidateCache this w =
     w\<lparr>corners := (corners w)
         (this := (corners w this)\<lparr>cachedRadius := None, cachedBorderWidth := None,
                 cachedBackgroundColor := None, cachedOpacity := None\<rparr>),
       trace := trace w @ [InvalidateCache this]\<rparr>"
  by (cases w) (simp add: invalidateCache_def upd_corner_def log_event_def)

lemma update_allocation_eq:
  "update_allocation this w =
     w\<lparr>corners := (corners w)(this := (corners w this)\<lparr>allocation := Some (corner_box this w)\<rparr>),
       trace := trace w @ [Allocate this (corner_box this w)]\<rparr>"
  by (simp add: update_allocation_def upd_corner_def log_event_def corner_box_def Let_def)

lemma vfunc_style_changed_eq:
  "vfunc_style_changed this w =
     w\<lparr>corners := (corners w)
         (this := (corners w this)
            \<lparr>cachedRadius := Some (resolved_radius w),
             cachedBorderWidth := Some (resolved_border_width w),
             cachedBackgroundColor := None,
             cachedOpacity := Some (resolved_opacity w),
             natural_width := resolved_radius w,
             natural_height := resolved_border_width w + resolved_radius w,
             allocation := Some (corner_box this w),
             translation_y := - resolved_border_width w,
             opacity_target := Some ((if in_overview w then 0 else resolved_opacity w) * 255)\<rparr>),
       trace := trace w @
         [InvalidateCache this, ThemeLookup this Radius, ThemeLookup this BorderWidth,
          ThemeLookup this Opacity, Allocate this (corner_box this w), StyleChanged this]\<rparr>"
  by (cases "corners w this"; cases w)
     (simp add: vfunc_style_changed_def invalidateCache_def getRadius_def getBorderWidth_def
      getOpacity_def update_allocation_def upd_corner_def log_event_def Let_def
      resolved_radius_def resolved_border_width_def resolved_opacity_def corner_box_def
      in_overview_def split: side.splits)

lemma new_PanelCorner_eq:
  "new_PanelCorner sd w =
     (next_corner w,
      w\<lparr>corners := (corners w)
          (next_corner w :=
             \<lparr>side = sd, position_changed_id = Some (next_handler_id w),
              size_changed_id = Some (next_handler_id w + 1),
              cachedRadius = None, cachedBorderWidth = None,
              cachedBackgroundColor = None, cachedOpacity = None,
              natural_width = 0, natural_height = 0,
              allocation = Some (case sd of
                  LEFT \<Rightarrow> \<lparr>box_x1 = 0, box_y1 = panel_height w,
                            box_x2 = 0, box_y2 = panel_height w\<rparr>
                | RIGHT \<Rightarrow> \<lparr>box_x1 = panel_width w, box_y1 = panel_height w,
                             box_x2 = panel_width w, box_y2 = panel_height w\<rparr>
                | _ \<Rightarrow> \<lparr>box_x1 = 0, box_y1 = 0, box_x2 = 0, box_y2 = 0\<rparr>),
              translation_y = 0, opacity_target = None, destroyed = False\<rparr>),
        next_corner := next_corner w + 1,
        panel_handlers := panel_handlers w @
          [(next_handler_id w, ''notify::position'', next_corner w),
           (next_handler_id w + 1, ''notify::size'', next_corner w)],
        next_handler_id := next_handler_id w + 2,
        trace := trace w @
          [Allocate (next_corner w) (case sd of
                  LEFT \<Rightarrow> \<lparr>box_x1 = 0, box_y1 = panel_height w,
                            box_x2 = 0, box_y2 = panel_height w\<rparr>
                | RIGHT \<Rightarrow> \<lparr>box_x1 = panel_width w, box_y1 = panel_height w,
                             box_x2 = panel_width w, box_y2 = panel_height w\<rparr>
                | _ \<Rightarrow> \<lparr>box_x1 = 0, box_y1 = 0, box_x2 = 0, box_y2 = 0\<rparr>)]\<rparr>)"
  by (cases w; cases sd)
     (simp_all add: new_PanelCorner_def panel_connect_def update_allocation_def upd_corner_def
        log_event_def Let_def)

lemma demo_resolved:
  "resolved_radius demo_world = 10 \<and> resolved_border_width demo_world = 2 \<and>
   resolved_opacity demo_world = 1 / 2 \<and>
   panel_width demo_world = 1000 \<and> panel_height demo_world = 40"
  by (simp add: resolved_radius_def resolved_border_width_def resolved_opacity_def
      lookup_for_length_settings lookup_for_double_settings
      demo_world_def init_world_def demo_settings_def slice1_def)

lemma resolved_frame_new:
  "resolved_radius (snd (new_PanelCorner sd w)) = resolved_radius w \<and>
   resolved_border_width (snd (new_PanelCorner sd w)) = resolved_border_width w \<and>
   resolved_opacity (snd (new_PanelCorner sd w)) = resolved_opacity w \<and>
   panel_width (snd (new_PanelCorner sd w)) = panel_width w \<and>
   panel_height (snd (new_PanelCorner sd w)) = panel_height w \<and>
   side (corners (snd (new_PanelCorner sd w)) (next_corner w)) = sd"
  by (simp add: new_PanelCorner_eq resolved_radius_def resolved_border_width_def
       resolved_opacity_def)

text \<open>
  C3, as the code has it. In a state where the radius resolves to 10 and the border width
  to 2, with a panel 1000 wide and 40 high, a style-changed pass sets the natural size to
  10 by 12 (radius by border width + radius); \<open>#update_allocation\<close> then yields x from 0
  to 10 and y from 40 to 52 for a \<open>LEFT\<close> corner, and x from 990 to 1000 and y from 40
  to 52 for a \<open>RIGHT\<close> corner.
\<close>

theorem allocation_after_style_changed:
  assumes r: "resolved_radius w = 10"
      and b: "resolved_border_width w = 2"
      and pw: "panel_width w = 1000" and ph: "panel_height w = 40"
  shows "(side (corners w this) = LEFT \<longrightarrow>
            allocation (corners (update_allocation this (vfunc_style_changed this w)) this) =
              Some \<lparr>box_x1 = 0, box_y1 = 40, box_x2 = 10, box_y2 = 52\<rparr>) \<and>
         (side (corners w this) = RIGHT \<longrightarrow>
            allocation (corners (update_allocation this (vfunc_style_changed this w)) this) =
              Some \<lparr>box_x1 = 990, box_y1 = 40, box_x2 = 1000, box_y2 = 52\<rparr>)"
  using r b pw ph
  by (simp add: update_allocation_eq vfunc_style_changed_eq corner_box_def)

theorem allocation_after_style_changed_witness:
  "resolved_radius (snd (new_PanelCorner LEFT demo_world)) = 10 \<and>
   resolved_border_width (snd (new_PanelCorner LEFT demo_world)) = 2 \<and>
   panel_width (snd (new_PanelCorner LEFT demo_world)) = 1000 \<and>
   panel_height (snd (new_PanelCorner LEFT demo_world)) = 40 \<and>
   side (corners (snd (new_PanelCorner LEFT demo_world)) 0) = LEFT \<and>
   allocation (corners (update_allocation 0
       (vfunc_style_changed 0 (snd (new_PanelCorner LEFT demo_world)))) 0) =
     Some \<lparr>box_x1 = 0, box_y1 = 40, box_x2 = 10, box_y2 = 52\<rparr> \<and>
   side (corners (snd (new_PanelCorner RIGHT demo_world)) 0) = RIGHT \<and>
   allocation (corners (update_allocation 0
       (vfunc_style_changed 0 (snd (new_PanelCorner RIGHT demo_world)))) 0) =
     Some \<lparr>box_x1 = 990, box_y1 = 40, box_x2 = 1000, box_y2 = 52\<rparr>"
proof -
  have n: "next_corner demo_world = 0"
    by (simp add: demo_world_def init_world_def)
  have l: "resolved_radius (snd (new_PanelCorner LEFT demo_world)) = 10"
          "resolved_border_width (snd (new_PanelCorner LEFT demo_world)) = 2"
          "panel_width (snd (new_PanelCorner LEFT demo_world)) = 1000"
          "panel_height (snd (new_PanelCorner LEFT demo_world)) = 40"
          "side (corners (snd (new_PanelCorner LEFT demo_world)) 0) = LEFT"
    using resolved_frame_new [of LEFT demo_world] demo_resolved n by simp_all
  have r: "resolved_radius (snd (new_PanelCorner RIGHT demo_world)) = 10"
          "resolved_border_width (snd (new_PanelCorner RIGHT demo_world)) = 2"
          "panel_width (snd (new_PanelCorner RIGHT demo_world)) = 1000"
          "panel_height (snd (new_PanelCorner RIGHT demo_world)) = 40"
          "side (corners (snd (new_PanelCorner RIGHT demo_world)) 0) = RIGHT"
    using resolved_frame_new [of RIGHT demo_world] demo_resolved n by simp_all
  show ?thesis
    using allocation_after_style_changed [OF l(1-4), of 0]
          allocation_after_style_changed [OF r(1-4), of 0] l r
    by simp
qed

text \<open>
  C3, as the claim words it (y from 40 to 50 for the \<open>LEFT\<close> corner), fails for the corner
  that the constructor makes in the concrete state: its rectangle ends at y = 52.
\<close>

theorem claimed_allocation_counterexample:
  "allocation (corners (update_allocation 0
       (vfunc_style_changed 0 (snd (new_PanelCorner LEFT demo_world)))) 0) \<noteq>
     Some \<lparr>box_x1 = 0, box_y1 = 40, box_x2 = 10, box_y2 = 50\<rparr>"
proof -
  have "allocation (corners (update_allocation 0
       (vfunc_style_changed 0 (snd (new_PanelCorner LEFT demo_world)))) 0) =
     Some \<lparr>box_x1 = 0, box_y1 = 40, box_x2 = 10, box_y2 = 52\<rparr>"
    using resolved_frame_new [of LEFT demo_world] demo_resolved
    by (simp add: update_allocation_eq vfunc_style_changed_eq corner_box_def
          demo_world_def init_world_def)
  then show ?thesis by simp
qed

text \<open>
  C8. In a style-changed pass the target of the opacity transition is 0 whenever forcing
  is enabled and the panel's pseudo-class string contains \<open>overview\<close>; otherwise it is the
  looked-up opacity times 255.
\<close>

theorem overview_opacity_override:
  "(FORCE_EXTENSION_VALUES (settings w) \<and>
    (\<exists>pc. panel_style_pseudo_class w = Some pc \<and> str_includes pc ''overview'') \<longrightarrow>
      opacity_target (corners (vfunc_style_changed this w) this) = Some 0) \<and>
   (\<not> (FORCE_EXTENSION_VALUES (settings w) \<and>
       (\<exists>pc. panel_style_pseudo_class w = Some pc \<and> str_includes pc ''overview'')) \<longrightarrow>
      opacity_target (corners (vfunc_style_changed this w) this) =
        Some (lookup_for_double (stage_theme_node w) ''-panel-corner-opacity'' (settings w)
                * 255))"
  by (auto simp add: vfunc_style_changed_eq in_overview_def resolved_opacity_def
        split: option.splits)

theorem overview_opacity_override_witness:
  "FORCE_EXTENSION_VALUES (settings overview_world) \<and>
   panel_style_pseudo_class overview_world = Some ''overview'' \<and>
   str_includes ''overview'' ''overview'' \<and>
   opacity_target (corners (vfunc_style_changed 0 overview_world) 0) = Some 0 \<and>
   \<not> FORCE_EXTENSION_VALUES (settings demo_world) \<and>
   opacity_target (corners (vfunc_style_changed 0 demo_world) 0) = Some (255 / 2)"
proof -
  have o: "FORCE_EXTENSION_VALUES (settings overview_world)"
          "panel_style_pseudo_class overview_world = Some ''overview''"
          "str_includes ''overview'' ''overview''"
    by (simp_all add: overview_world_def init_world_def demo_settings_def)
  have d: "\<not> FORCE_EXTENSION_VALUES (settings demo_world)"
          "lookup_for_double (stage_theme_node demo_world) ''-panel-corner-opacity''
             (settings demo_world) = 1 / 2"
    by (simp_all add: demo_world_def init_world_def demo_settings_def
          lookup_for_double_settings slice1_def)
  show ?thesis
    using overview_opacity_override [of overview_world 0]
          overview_opacity_override [of demo_world 0] o d
    by simp
qed

section \<open>PanelCorners: remove\<close>

lemma remove_absent:
  "debouncedStyleUpdate w = None \<Longrightarrow> connections w = [] \<Longrightarrow> panel_leftCorner w = None \<Longrightarrow>
   panel_rightCorner w = None \<Longrightarrow> remove w = w"
  by (cases w) (simp add: remove_def disconnect_all_def)

lemma remove_connections_frame:
  "debouncedStyleUpdate (remove_connections c w) = debouncedStyleUpdate w \<and>
   connections (remove_connections c w) = connections w \<and>
   panel_leftCorner (remove_connections c w) = panel_leftCorner w \<and>
   panel_rightCorner (remove_connections c w) = panel_rightCorner w \<and>
   timers (remove_connections c w) = timers w \<and>
   closures (remove_connections c w) = closures w"
  by (simp add: remove_connections_def panel_disconnect_def upd_corner_def log_event_def Let_def
      split: option.splits)

lemma remove_corner_frame:
  "debouncedStyleUpdate (remove_corner c w) = debouncedStyleUpdate w \<and>
   connections (remove_corner c w) = connections w \<and>
   panel_leftCorner (remove_corner c w) = panel_leftCorner w \<and>
   panel_rightCorner (remove_corner c w) = panel_rightCorner w \<and>
   timers (remove_corner c w) = timers w \<and>
   closures (remove_corner c w) = closures w"
  by (simp add: remove_corner_def remove_connections_frame upd_corner_def log_event_def Let_def)

lemma cancel_frame:
  "debouncedStyleUpdate (cancel d w) = debouncedStyleUpdate w \<and>
   connections (cancel d w) = connections w \<and>
   panel_leftCorner (cancel d w) = panel_leftCorner w \<and>
   panel_rightCorner (cancel d w) = panel_rightCorner w"
  by (simp add: cancel_def source_remove_def upd_closure_def log_event_def split: option.splits)

lemma remove_result:
  "debouncedStyleUpdate (remove w) = None \<and> connections (remove w) = [] \<and>
   panel_leftCorner (remove w) = None \<and> panel_rightCorner (remove w) = None"
  by (simp add: remove_def disconnect_all_def remove_corner_frame cancel_frame Let_def
      split: option.splits)

text \<open>
  C10. A second \<open>remove()\<close> right after a first leaves the whole state as the first left
  it, the trace of operations included; so does \<open>remove()\<close> on a controller that was never
  updated. \<open>remove\<close> has no failing branch: it returns a state for every state.
\<close>

theorem remove_idempotent:
  "remove (remove w) = remove w \<and>
   remove (init_world s parse sf node pw ph pc) = init_world s parse sf node pw ph pc"
proof
  show "remove (remove w) = remove w"
    using remove_result [of w] by (simp add: remove_absent)
  show "remove (init_world s parse sf node pw ph pc) = init_world s parse sf node pw ph pc"
    by (rule remove_absent) (simp_all add: init_world_def)
qed

section \<open>The cache\<close>

lemma call_debounced_frame:
  "corners (call_debounced d w) = corners w \<and>
   count_list (trace (call_debounced d w)) (ThemeLookup this f) = count_list (trace w) (ThemeLookup this f) \<and>
   settings (call_debounced d w) = settings w \<and>
   scale_factor (call_debounced d w) = scale_factor w \<and>
   color_from_string (call_debounced d w) = color_from_string w"
  by (simp add: call_debounced_def source_remove_def timeout_add_def upd_closure_def
      log_event_def Let_def split: option.splits)

lemma fold_call_debounced_frame:
  "corners (fold call_debounced ds w) = corners w \<and>
   count_list (trace (fold call_debounced ds w)) (ThemeLookup this f) = count_list (trace w) (ThemeLookup this f) \<and>
   settings (fold call_debounced ds w) = settings w \<and>
   scale_factor (fold call_debounced ds w) = scale_factor w \<and>
   color_from_string (fold call_debounced ds w) = color_from_string w"
  by (induction ds arbitrary: w) (simp_all add: call_debounced_frame)

lemma emit_changed_frame:
  "corners (emit_changed k w) = corners w \<and>
   count_list (trace (emit_changed k w)) (ThemeLookup this f) = count_list (trace w) (ThemeLookup this f) \<and>
   settings (emit_changed k w) = settings w \<and>
   scale_factor (emit_changed k w) = scale_factor w \<and>
   color_from_string (emit_changed k w) = color_from_string w"
  by (simp add: emit_changed_def fold_call_debounced_frame)

lemma fold_emit_changed_frame:
  "corners (fold emit_changed ks w) = corners w \<and>
   count_list (trace (fold emit_changed ks w)) (ThemeLookup this f) = count_list (trace w) (ThemeLookup this f) \<and>
   settings (fold emit_changed ks w) = settings w \<and>
   scale_factor (fold emit_changed ks w) = scale_factor w \<and>
   color_from_string (fold emit_changed ks w) = color_from_string w"
  by (induction ks arbitrary: w) (simp_all add: emit_changed_frame)

lemma commit_settings_frame:
  "corners (commit_settings s' w) = corners w \<and>
   count_list (trace (commit_settings s' w)) (ThemeLookup this f) = count_list (trace w) (ThemeLookup this f) \<and>
   settings (commit_settings s' w) = s' \<and>
   scale_factor (commit_settings s' w) = scale_factor w \<and>
   color_from_string (commit_settings s' w) = color_from_string w"
  by (simp add: commit_settings_def fold_emit_changed_frame)

lemma user_edit_frame:
  "corners (user_edit g k w) = corners w \<and>
   count_list (trace (user_edit g k w)) (ThemeLookup this f) = count_list (trace w) (ThemeLookup this f)"
  by (simp add: user_edit_def emit_changed_frame)

lemma getter_cached:
  "cached f (corners w this) = Some v \<Longrightarrow> getter f this node w = (v, w)"
  by (cases f)
     (auto simp add: getter_def cached_def getRadius_def getBorderWidth_def
        getBackgroundColor_def getOpacity_def)

lemma getter_fresh:
  assumes "cached f (corners w this) = None"
  shows "fst (getter f this node w) = fresh_lookup f node w \<and>
         cached f (corners (snd (getter f this node w)) this) = Some (fresh_lookup f node w) \<and>
         count_list (trace (snd (getter f this node w))) (ThemeLookup this f) = count_list (trace w) (ThemeLookup this f) + 1"
proof (cases f)
  case Radius
  with assms show ?thesis
    by (simp add: getter_def cached_def fresh_lookup_def getRadius_def upd_corner_def
        log_event_def Let_def)
next
  case BorderWidth
  with assms show ?thesis
    by (simp add: getter_def cached_def fresh_lookup_def getBorderWidth_def upd_corner_def
        log_event_def Let_def)
next
  case Opacity
  with assms show ?thesis
    by (simp add: getter_def cached_def fresh_lookup_def getOpacity_def upd_corner_def
        log_event_def Let_def)
next
  case BackgroundColor
  with assms show ?thesis
    by (simp add: getter_def cached_def fresh_lookup_def getBackgroundColor_def upd_corner_def
        commit_settings_frame split_beta Let_def log_event_def)
qed

lemma getter_other:
  assumes "g \<noteq> f"
  shows "cached f (corners (snd (getter g this node w)) this) = cached f (corners w this) \<and>
         count_list (trace (snd (getter g this node w))) (ThemeLookup this f) = count_list (trace w) (ThemeLookup this f)"
proof (cases g)
  case Radius
  with assms show ?thesis
    by (cases f)
       (simp_all add: getter_def cached_def getRadius_def upd_corner_def
        log_event_def Let_def split: option.splits)
next
  case BorderWidth
  with assms show ?thesis
    by (cases f)
       (simp_all add: getter_def cached_def getBorderWidth_def upd_corner_def
        log_event_def Let_def split: option.splits)
next
  case Opacity
  with assms show ?thesis
    by (cases f)
       (simp_all add: getter_def cached_def getOpacity_def upd_corner_def
        log_event_def Let_def split: option.splits)
next
  case BackgroundColor
  have "count_list (trace (log_event (ThemeLookup this BackgroundColor) w)) (ThemeLookup this f) = count_list (trace w) (ThemeLookup this f)"
    using assms BackgroundColor by (simp add: log_event_def)
  with assms BackgroundColor show ?thesis
    by (cases f)
       (simp_all add: getter_def cached_def getBackgroundColor_def upd_corner_def
        commit_settings_frame split_beta Let_def log_event_def split: option.splits)
qed

lemma invalidateCache_cached:
  "cached f (corners (invalidateCache this w) this) = None \<and>
   count_list (trace (invalidateCache this w)) (ThemeLookup this f) =
     count_list (trace w) (ThemeLookup this f)"
  by (cases f) (simp_all add: invalidateCache_eq cached_def)

lemma run_cached:
  "cached f (corners w this) = Some v \<Longrightarrow> Invalidate \<notin> set acts \<Longrightarrow>
   set (results f (fst (run this acts w))) \<subseteq> {v} \<and>
   count_list (trace (snd (run this acts w))) (ThemeLookup this f) =
     count_list (trace w) (ThemeLookup this f)"
proof (induction acts arbitrary: w)
  case Nil
  then show ?case by (simp add: results_def)
next
  case (Cons a acts)
  show ?case
  proof (cases a)
    case (Get g node)
    show ?thesis
    proof (cases "g = f")
      case True
      with Cons Get show ?thesis
        by (simp add: getter_cached results_def)
    next
      case False
      from False have keep:
        "cached f (corners (snd (getter g this node w)) this) = Some v"
        "count_list (trace (snd (getter g this node w))) (ThemeLookup this f) =
           count_list (trace w) (ThemeLookup this f)"
        using getter_other [of g f this node w] Cons.prems(1) by simp_all
      from Cons.prems(2) have "Invalidate \<notin> set acts" by simp
      from Cons.IH [OF keep(1) this] keep(2) False Get show ?thesis
        by (simp add: results_def)
    qed
  next
    case Invalidate
    with Cons.prems show ?thesis by simp
  next
    case (Edit g key)
    have keep: "cached f (corners (user_edit g key w) this) = Some v"
      using Cons.prems(1) by (simp add: user_edit_frame)
    from Cons.prems(2) have "Invalidate \<notin> set acts" by simp
    from Cons.IH [OF keep this] Edit show ?thesis
      by (simp add: user_edit_frame)
  qed
qed

lemma run_uncached:
  "cached f (corners w this) = None \<Longrightarrow> Invalidate \<notin> set acts \<Longrightarrow>
   (\<exists>v. set (results f (fst (run this acts w))) \<subseteq> {v}) \<and>
   count_list (trace (snd (run this acts w))) (ThemeLookup this f) \<le>
     count_list (trace w) (ThemeLookup this f) + 1"
proof (induction acts arbitrary: w)
  case Nil
  then show ?case by (simp add: results_def)
next
  case (Cons a acts)
  from Cons.prems(2) have rest: "Invalidate \<notin> set acts" by simp
  show ?case
  proof (cases a)
    case (Get g node)
    show ?thesis
    proof (cases "g = f")
      case True
      from getter_fresh [OF Cons.prems(1), of node]
      have fr: "fst (getter f this node w) = fresh_lookup f node w"
               "cached f (corners (snd (getter f this node w)) this) = Some (fresh_lookup f node w)"
               "count_list (trace (snd (getter f this node w))) (ThemeLookup this f) =
                  count_list (trace w) (ThemeLookup this f) + 1"
        by simp_all
      from run_cached [OF fr(2) rest] fr(1) fr(3) True Get show ?thesis
        by (auto simp add: results_def)
    next
      case False
      from False have keep:
        "cached f (corners (snd (getter g this node w)) this) = None"
        "count_list (trace (snd (getter g this node w))) (ThemeLookup this f) =
           count_list (trace w) (ThemeLookup this f)"
        using getter_other [of g f this node w] Cons.prems(1) by simp_all
      from Cons.IH [OF keep(1) rest] keep(2) False Get show ?thesis
        by (simp add: results_def)
    qed
  next
    case Invalidate
    with Cons.prems show ?thesis by simp
  next
    case (Edit g key)
    have keep: "cached f (corners (user_edit g key w) this) = None"
      using Cons.prems(1) by (simp add: user_edit_frame)
    from Cons.IH [OF keep rest] Edit show ?thesis
      by (simp add: user_edit_frame)
  qed
qed

text \<open>
  C4. In a sequence of getter calls and settings edits on one corner that contains no
  \<open>invalidateCache()\<close>, the calls of any one field's getter all return the value that the
  first of them returned, and the field's ThemeLookup function runs at most once.
\<close>

theorem cache_coherence:
  assumes "Invalidate \<notin> set acts"
  shows "(\<forall>v \<in> set (results f (fst (run this acts w))).
            v = hd (results f (fst (run this acts w)))) \<and>
         lookup_count this f (snd (run this acts w)) \<le> lookup_count this f w + 1"
proof -
  have "(\<exists>v. set (results f (fst (run this acts w))) \<subseteq> {v}) \<and>
        count_list (trace (snd (run this acts w))) (ThemeLookup this f) \<le>
          count_list (trace w) (ThemeLookup this f) + 1"
  proof (cases "cached f (corners w this)")
    case None
    from run_uncached [OF None assms] show ?thesis .
  next
    case (Some v)
    from run_cached [OF Some assms] show ?thesis by auto
  qed
  then obtain v where v: "set (results f (fst (run this acts w))) \<subseteq> {v}"
    and c: "count_list (trace (snd (run this acts w))) (ThemeLookup this f) \<le>
          count_list (trace w) (ThemeLookup this f) + 1"
    by blast
  have "\<forall>x \<in> set (results f (fst (run this acts w))). x = hd (results f (fst (run this acts w)))"
  proof (cases "results f (fst (run this acts w))")
    case Nil
    then show ?thesis by simp
  next
    case (Cons y ys)
    with v show ?thesis by auto
  qed
  with c show ?thesis by (simp add: lookup_count_def)
qed

lemma demo_reads_results:
  "results Radius (fst (run 0 demo_reads (snd (new_PanelCorner LEFT demo_world)))) = [Number 10, Number 10]"
  by (simp add: demo_reads_def results_def getter_def getRadius_def getOpacity_def
      new_PanelCorner_eq user_edit_def emit_changed_def demo_world_def init_world_def
      upd_corner_def log_event_def lookup_for_length_settings lookup_for_double_settings
      demo_settings_def slice1_def demo_edit_def Let_def)

theorem cache_coherence_witness:
  "Invalidate \<notin> set demo_reads \<and>
   results Radius (fst (run 0 demo_reads (snd (new_PanelCorner LEFT demo_world)))) =
     [Number 10, Number 10] \<and>
   lookup_count 0 Radius (snd (run 0 demo_reads (snd (new_PanelCorner LEFT demo_world)))) \<le>
     lookup_count 0 Radius (snd (new_PanelCorner LEFT demo_world)) + 1"
proof -
  have h: "Invalidate \<notin> set demo_reads"
    by (simp add: demo_reads_def)
  show ?thesis
    using cache_coherence [OF h, of Radius 0 "snd (new_PanelCorner LEFT demo_world)"] h
      demo_reads_results
    by simp
qed

lemma run_keeps_unread:
  "cached f (corners w this) = None \<Longrightarrow> \<forall>node. Get f node \<notin> set acts \<Longrightarrow>
   cached f (corners (snd (run this acts w)) this) = None"
proof (induction acts arbitrary: w)
  case Nil
  then show ?case by simp
next
  case (Cons a acts)
  from Cons.prems(2) have rest: "\<forall>node. Get f node \<notin> set acts" by simp
  show ?case
  proof (cases a)
    case (Get g node)
    with Cons.prems(2) have "g \<noteq> f" by auto
    then have "cached f (corners (snd (getter g this node w)) this) = None"
      using getter_other [of g f this node w] Cons.prems(1) by simp
    from Cons.IH [OF this rest] Get show ?thesis by simp
  next
    case Invalidate
    have "cached f (corners (invalidateCache this w) this) = None"
      by (simp add: invalidateCache_cached)
    from Cons.IH [OF this rest] Invalidate show ?thesis by simp
  next
    case (Edit g key)
    have "cached f (corners (user_edit g key w) this) = None"
      using Cons.prems(1) by (simp add: user_edit_frame)
    from Cons.IH [OF this rest] Edit show ?thesis by simp
  qed
qed

text \<open>
  C5. \<open>invalidateCache()\<close> clears the four cached fields at once; after it, and after any
  further actions that do not read the field \<open>f\<close>, the next call of the getter of \<open>f\<close>
  returns what the field's ThemeLookup function returns in the state of that call, and
  runs that function once.
\<close>

theorem invalidate_clears_all:
  assumes "\<forall>node. Get f node \<notin> set acts"
  shows "cached Radius (corners (invalidateCache this w) this) = None \<and>
         cached BorderWidth (corners (invalidateCache this w) this) = None \<and>
         cached BackgroundColor (corners (invalidateCache this w) this) = None \<and>
         cached Opacity (corners (invalidateCache this w) this) = None \<and>
         fst (getter f this node (snd (run this acts (invalidateCache this w)))) =
           fresh_lookup f node (snd (run this acts (invalidateCache this w))) \<and>
         lookup_count this f
             (snd (getter f this node (snd (run this acts (invalidateCache this w))))) =
           lookup_count this f (snd (run this acts (invalidateCache this w))) + 1"
proof -
  have "cached f (corners (invalidateCache this w) this) = None"
    by (simp add: invalidateCache_cached)
  from run_keeps_unread [OF this assms]
  have "cached f (corners (snd (run this acts (invalidateCache this w))) this) = None" .
  from getter_fresh [OF this, of node] show ?thesis
    by (simp add: invalidateCache_cached lookup_count_def)
qed

theorem invalidate_clears_all_witness:
  "(\<forall>node. Get Radius node \<notin> set demo_unread) \<and>
   fst (getter Radius 0 None
          (snd (run 0 demo_unread
                  (invalidateCache 0 (vfunc_style_changed 0
                     (snd (new_PanelCorner LEFT demo_world))))))) = Number 20"
proof -
  have h: "\<forall>node. Get Radius node \<notin> set demo_unread"
    by (simp add: demo_unread_def)
  have "fresh_lookup Radius None
          (snd (run 0 demo_unread
                  (invalidateCache 0 (vfunc_style_changed 0
                     (snd (new_PanelCorner LEFT demo_world)))))) = Number 20"
    by (simp add: demo_unread_def fresh_lookup_def getter_def getOpacity_def
      new_PanelCorner_eq vfunc_style_changed_eq invalidateCache_eq
      user_edit_def emit_changed_def demo_world_def init_world_def
      upd_corner_def log_event_def lookup_for_length_settings lookup_for_double_settings
      demo_settings_def slice1_def demo_edit_def Let_def)
  with invalidate_clears_all [OF h, of 0 "vfunc_style_changed 0
                     (snd (new_PanelCorner LEFT demo_world))" None] h
  show ?thesis by simp
qed

section \<open>debounce and the controller: the effect of each operation\<close>

lemma call_debounced_eq:
  "call_debounced d w =
     w\<lparr>timers := (case timeoutId (closures w d) of
                     Some t \<Rightarrow> filter (\<lambda>x. fst x \<noteq> t) (timers w)
                   | None \<Rightarrow> timers w) @
                  [(next_source_id w, now w + wait (closures w d), d)],
       next_source_id := next_source_id w + 1,
       closures := (closures w)(d := (closures w d)\<lparr>timeoutId := Some (next_source_id w)\<rparr>),
       trace := trace w @
                (case timeoutId (closures w d) of
                   Some t \<Rightarrow> [SourceRemove t]
                 | None \<Rightarrow> []) @ [TimeoutAdd (next_source_id w) d]\<rparr>"
  by (cases w)
     (simp add: call_debounced_def source_remove_def timeout_add_def upd_closure_def
        log_event_def Let_def split: option.splits)

lemma cancel_eq:
  "cancel d w =
     (case timeoutId (closures w d) of
        Some t \<Rightarrow>
          w\<lparr>timers := filter (\<lambda>x. fst x \<noteq> t) (timers w),
            closures := (closures w)(d := (closures w d)\<lparr>timeoutId := None\<rparr>),
            trace := trace w @ [SourceRemove t]\<rparr>
      | None \<Rightarrow> w)"
  by (cases w)
     (simp add: cancel_def source_remove_def upd_closure_def log_event_def split: option.splits)

lemma fold_connect_eq:
  "fold (\<lambda>key. connections_connect (sig key) d) ks w =
     w\<lparr>connections := connections w @ map (\<lambda>key. (sig key, d)) ks\<rparr>"
  by (induction ks arbitrary: w) (simp_all add: connections_connect_def)

lemma update_corner_eq:
  "update_corner corner w =
     w\<lparr>panel_style_bindings := panel_style_bindings w @ [corner],
       panel_children := panel_children w @ [corner],
       corners := (corners w)
         (corner := (corners w corner)
            \<lparr>cachedRadius := Some (resolved_radius w),
             cachedBorderWidth := Some (resolved_border_width w),
             cachedBackgroundColor := None,
             cachedOpacity := Some (resolved_opacity w),
             natural_width := resolved_radius w,
             natural_height := resolved_border_width w + resolved_radius w,
             allocation := Some (corner_box corner w),
             translation_y := - resolved_border_width w,
             opacity_target := Some ((if in_overview w then 0 else resolved_opacity w) * 255)\<rparr>),
       trace := trace w @
         [InvalidateCache corner, ThemeLookup corner Radius, ThemeLookup corner BorderWidth,
          ThemeLookup corner Opacity, Allocate corner (corner_box corner w),
          StyleChanged corner],
       closures := (closures w)
         (next_closure w :=
            \<lparr>timeoutId = None, callback_corner = corner, wait = SETTINGS_DEBOUNCE_MS\<rparr>),
       next_closure := next_closure w + 1,
       debouncedStyleUpdate := Some (next_closure w),
       connections := connections w @
         map (\<lambda>key. (''changed::'' @ key, next_closure w)) (keys (settings w))\<rparr>"
  by (cases "corners w corner"; cases w)
     (simp add: update_corner_def vfunc_style_changed_eq debounce_def fold_connect_eq Let_def
        resolved_radius_def resolved_border_width_def resolved_opacity_def corner_box_def
        in_overview_def split: side.splits)

lemma log_debug_frame:
  "debouncedStyleUpdate (log_debug str w) = debouncedStyleUpdate w \<and>
   connections (log_debug str w) = connections w \<and>
   panel_leftCorner (log_debug str w) = panel_leftCorner w \<and>
   panel_rightCorner (log_debug str w) = panel_rightCorner w \<and>
   settings (log_debug str w) = settings w \<and>
   scale_factor (log_debug str w) = scale_factor w \<and>
   stage_theme_node (log_debug str w) = stage_theme_node w \<and>
   panel_width (log_debug str w) = panel_width w \<and>
   panel_height (log_debug str w) = panel_height w \<and>
   panel_style_pseudo_class (log_debug str w) = panel_style_pseudo_class w \<and>
   panel_handlers (log_debug str w) = panel_handlers w \<and>
   next_handler_id (log_debug str w) = next_handler_id w \<and>
   corners (log_debug str w) = corners w \<and>
   next_corner (log_debug str w) = next_corner w \<and>
   closures (log_debug str w) = closures w \<and>
   next_closure (log_debug str w) = next_closure w \<and>
   timers (log_debug str w) = timers w \<and>
   next_source_id (log_debug str w) = next_source_id w \<and>
   now (log_debug str w) = now w \<and>
   trace (log_debug str w) = trace w"
  by (simp add: log_debug_def)

lemma update_absent:
  assumes "debouncedStyleUpdate w = None" "connections w = []" "panel_leftCorner w = None"
    "panel_rightCorner w = None"
  shows "update w =
     log_debug ''corners updated.''
       (update_corner (Suc (next_corner w))
          (update_corner (next_corner w)
             ((snd (new_PanelCorner RIGHT
                 ((snd (new_PanelCorner LEFT (log_debug ''updating panel corners...'' w)))
                    \<lparr>panel_leftCorner := Some (next_corner w)\<rparr>)))
                \<lparr>panel_rightCorner := Some (Suc (next_corner w))\<rparr>)))"
proof -
  have r: "remove (log_debug ''updating panel corners...'' w) =
           log_debug ''updating panel corners...'' w"
    by (rule remove_absent) (simp_all add: log_debug_frame assms)
  have n: "fst (new_PanelCorner LEFT (log_debug ''updating panel corners...'' w)) = next_corner w"
    by (simp add: new_PanelCorner_eq log_debug_frame)
  have m: "fst (new_PanelCorner RIGHT
                 ((snd (new_PanelCorner LEFT (log_debug ''updating panel corners...'' w)))
                    \<lparr>panel_leftCorner := Some (next_corner w)\<rparr>)) = Suc (next_corner w)"
    by (simp add: new_PanelCorner_eq log_debug_frame)
  show ?thesis
    unfolding update_def Let_def split_beta r n m ..
qed

lemma log_debug_eq:
  "log_debug str w =
     w\<lparr>console := (if DEBUG (settings w) then console w @ [''[Panel corners] '' @ str]
                    else console w)\<rparr>"
  by (cases w) (simp add: log_debug_def)

lemma update_init_eq:
  "update (init_world s parse sf node pw ph pc) =
     (init_world s parse sf node pw ph pc)
       \<lparr>panel_leftCorner := Some 0, panel_rightCorner := Some 1,
        panel_children := [0, 1], panel_style_bindings := [0, 1],
        panel_handlers := [(1, ''notify::position'', 0), (2, ''notify::size'', 0),
                           (3, ''notify::position'', 1), (4, ''notify::size'', 1)],
        next_handler_id := 5,
        corners := (\<lambda>_. blank_corner)
          (0 := \<lparr>side = LEFT, position_changed_id = Some 1, size_changed_id = Some 2,
                 cachedRadius = Some (resolved_radius (init_world s parse sf node pw ph pc)),
                 cachedBorderWidth =
                   Some (resolved_border_width (init_world s parse sf node pw ph pc)),
                 cachedBackgroundColor = None,
                 cachedOpacity = Some (resolved_opacity (init_world s parse sf node pw ph pc)),
                 natural_width = resolved_radius (init_world s parse sf node pw ph pc),
                 natural_height = resolved_border_width (init_world s parse sf node pw ph pc) +
                                  resolved_radius (init_world s parse sf node pw ph pc),
                 allocation = Some \<lparr>box_x1 = 0, box_y1 = ph, box_x2 = 0, box_y2 = ph\<rparr>,
                 translation_y = - resolved_border_width (init_world s parse sf node pw ph pc),
                 opacity_target =
                   Some ((if in_overview (init_world s parse sf node pw ph pc) then 0
                          else resolved_opacity (init_world s parse sf node pw ph pc)) * 255),
                 destroyed = False\<rparr>,
           1 := \<lparr>side = RIGHT, position_changed_id = Some 3, size_changed_id = Some 4,
                 cachedRadius = Some (resolved_radius (init_world s parse sf node pw ph pc)),
                 cachedBorderWidth =
                   Some (resolved_border_width (init_world s parse sf node pw ph pc)),
                 cachedBackgroundColor = None,
                 cachedOpacity = Some (resolved_opacity (init_world s parse sf node pw ph pc)),
                 natural_width = resolved_radius (init_world s parse sf node pw ph pc),
                 natural_height = resolved_border_width (init_world s parse sf node pw ph pc) +
                                  resolved_radius (init_world s parse sf node pw ph pc),
                 allocation = Some \<lparr>box_x1 = pw, box_y1 = ph, box_x2 = pw, box_y2 = ph\<rparr>,
                 translation_y = - resolved_border_width (init_world s parse sf node pw ph pc),
                 opacity_target =
                   Some ((if in_overview (init_world s parse sf node pw ph pc) then 0
                          else resolved_opacity (init_world s parse sf node pw ph pc)) * 255),
                 destroyed = False\<rparr>),
        next_corner := 2,
        closures := (\<lambda>_. \<lparr>timeoutId = None, callback_corner = 0, wait = 0\<rparr>)
          (0 := \<lparr>timeoutId = None, callback_corner = 0, wait = 50\<rparr>,
           1 := \<lparr>timeoutId = None, callback_corner = 1, wait = 50\<rparr>),
        next_closure := 2,
        debouncedStyleUpdate := Some 1,
        connections := map (\<lambda>key. (''changed::'' @ key, 0)) (keys s) @
                       map (\<lambda>key. (''changed::'' @ key, 1)) (keys s),
        console := (if DEBUG s
                    then [''[Panel corners] updating panel corners...'',
                          ''[Panel corners] corners updated.'']
                    else []),
        trace := init_trace pw ph\<rparr>"
proof -
  have e: "update (init_world s parse sf node pw ph pc) = 
     log_debug ''corners updated.''
       (update_corner 1
          (update_corner 0
             ((snd (new_PanelCorner RIGHT
                 ((snd (new_PanelCorner LEFT (log_debug ''updating panel corners...'' (init_world s parse sf node pw ph pc))))
                    \<lparr>panel_leftCorner := Some 0\<rparr>)))
                \<lparr>panel_rightCorner := Some 1\<rparr>)))"
    using update_absent [of "init_world s parse sf node pw ph pc"]
    by (simp add: init_world_def)
  show ?thesis
    unfolding e
    by (simp add: init_world_def log_debug_eq new_PanelCorner_eq update_corner_eq
        resolved_radius_def resolved_border_width_def resolved_opacity_def in_overview_def
        corner_box_def SETTINGS_DEBOUNCE_MS_def init_trace_def eval_nat_numeral)
qed

section \<open>A timeout firing\<close>

lemma run_timeout_eq:
  assumes "find (\<lambda>x. fst x = sid) (timers w) = Some (sid', due, d)"
  shows "run_timeout sid w =
     w\<lparr>closures := (closures w)(d := (closures w d)\<lparr>timeoutId := None\<rparr>),
       corners := (corners w)
         (callback_corner (closures w d) := (corners w (callback_corner (closures w d)))
            \<lparr>cachedRadius := Some (resolved_radius w),
             cachedBorderWidth := Some (resolved_border_width w),
             cachedBackgroundColor := None,
             cachedOpacity := Some (resolved_opacity w),
             natural_width := resolved_radius w,
             natural_height := resolved_border_width w + resolved_radius w,
             allocation := Some (corner_box (callback_corner (closures w d)) w),
             translation_y := - resolved_border_width w,
             opacity_target := Some ((if in_overview w then 0 else resolved_opacity w) * 255)\<rparr>),
       trace := trace w @
         [TimeoutFired sid d,
          InvalidateCache (callback_corner (closures w d)),
          InvalidateCache (callback_corner (closures w d)),
          ThemeLookup (callback_corner (closures w d)) Radius,
          ThemeLookup (callback_corner (closures w d)) BorderWidth,
          ThemeLookup (callback_corner (closures w d)) Opacity,
          Allocate (callback_corner (closures w d)) (corner_box (callback_corner (closures w d)) w),
          StyleChanged (callback_corner (closures w d))],
       timers := filter (\<lambda>x. fst x \<noteq> sid) (timers w)\<rparr>"
  using assms
  by (cases "corners w (callback_corner (closures w d))"; cases w)
     (simp add: run_timeout_def vfunc_style_changed_eq invalidateCache_eq upd_closure_def
        log_event_def Let_def resolved_radius_def resolved_border_width_def resolved_opacity_def
        corner_box_def in_overview_def split: side.splits)

lemma corner_box_same:
  "corners w c = corners W c \<Longrightarrow> panel_width w = panel_width W \<Longrightarrow>
   panel_height w = panel_height W \<Longrightarrow> corner_box c w = corner_box c W"
  by (cases "side (corners W c)") (simp_all add: corner_box_def)

section \<open>The concrete run\<close>

lemma demo_active:
  "update demo_world =
     demo_world
       \<lparr>panel_leftCorner := Some 0, panel_rightCorner := Some 1,
        panel_children := [0, 1], panel_style_bindings := [0, 1],
        panel_handlers := [(1, ''notify::position'', 0), (2, ''notify::size'', 0),
                           (3, ''notify::position'', 1), (4, ''notify::size'', 1)],
        next_handler_id := 5,
        corners := (\<lambda>_. blank_corner)
          (0 := \<lparr>side = LEFT, position_changed_id = Some 1, size_changed_id = Some 2,
                 cachedRadius = Some 10, cachedBorderWidth = Some 2,
                 cachedBackgroundColor = None, cachedOpacity = Some (1 / 2),
                 natural_width = 10, natural_height = 12,
                 allocation = Some \<lparr>box_x1 = 0, box_y1 = 40, box_x2 = 0, box_y2 = 40\<rparr>,
                 translation_y = - 2, opacity_target = Some (255 / 2), destroyed = False\<rparr>,
           1 := \<lparr>side = RIGHT, position_changed_id = Some 3, size_changed_id = Some 4,
                 cachedRadius = Some 10, cachedBorderWidth = Some 2,
                 cachedBackgroundColor = None, cachedOpacity = Some (1 / 2),
                 natural_width = 10, natural_height = 12,
                 allocation = Some \<lparr>box_x1 = 1000, box_y1 = 40, box_x2 = 1000, box_y2 = 40\<rparr>,
                 translation_y = - 2, opacity_target = Some (255 / 2), destroyed = False\<rparr>),
        next_corner := 2,
        closures := (\<lambda>_. \<lparr>timeoutId = None, callback_corner = 0, wait = 0\<rparr>)
          (0 := \<lparr>timeoutId = None, callback_corner = 0, wait = 50\<rparr>,
           1 := \<lparr>timeoutId = None, callback_corner = 1, wait = 50\<rparr>),
        next_closure := 2,
        debouncedStyleUpdate := Some 1,
        connections := [(''changed::panel-corner-radius'', 0), (''changed::panel-corner-opacity'', 0),
                        (''changed::panel-corner-radius'', 1), (''changed::panel-corner-opacity'', 1)],
        trace := init_trace 1000 40\<rparr>"
  unfolding demo_world_def update_init_eq
  by (simp add: init_world_def resolved_radius_def resolved_border_width_def resolved_opacity_def
       in_overview_def lookup_for_length_settings lookup_for_double_settings demo_settings_def
       slice1_def)

lemma demo_scheduled:
  "burst [(0, ''panel-corner-radius'')] (update demo_world) =
     (update demo_world)
       \<lparr>timers := [(1, 50, 0), (2, 50, 1)],
        closures := (\<lambda>_. \<lparr>timeoutId = None, callback_corner = 0, wait = 0\<rparr>)
          (0 := \<lparr>timeoutId = Some 1, callback_corner = 0, wait = 50\<rparr>,
           1 := \<lparr>timeoutId = Some 2, callback_corner = 1, wait = 50\<rparr>),
        next_source_id := 3,
        trace := init_trace 1000 40 @ [TimeoutAdd 1 0, TimeoutAdd 2 1]\<rparr>"
  unfolding demo_active
  by (simp add: advance_def emit_changed_def call_debounced_eq demo_world_def init_world_def
        eval_nat_numeral)

lemma demo_removed:
  "remove (burst [(0, ''panel-corner-radius'')] (update demo_world)) =
     (update demo_world)
       \<lparr>timers := [(1, 50, 0)],
        closures := (\<lambda>_. \<lparr>timeoutId = None, callback_corner = 0, wait = 0\<rparr>)
          (0 := \<lparr>timeoutId = Some 1, callback_corner = 0, wait = 50\<rparr>,
           1 := \<lparr>timeoutId = None, callback_corner = 1, wait = 50\<rparr>),
        next_source_id := 3,
        debouncedStyleUpdate := None,
        connections := [],
        panel_leftCorner := None, panel_rightCorner := None,
        panel_children := [], panel_handlers := [],
        corners := (\<lambda>_. blank_corner)
          (0 := \<lparr>side = LEFT, position_changed_id = None, size_changed_id = None,
                 cachedRadius = Some 10, cachedBorderWidth = Some 2,
                 cachedBackgroundColor = None, cachedOpacity = Some (1 / 2),
                 natural_width = 10, natural_height = 12,
                 allocation = Some \<lparr>box_x1 = 0, box_y1 = 40, box_x2 = 0, box_y2 = 40\<rparr>,
                 translation_y = - 2, opacity_target = Some (255 / 2), destroyed = True\<rparr>,
           1 := \<lparr>side = RIGHT, position_changed_id = None, size_changed_id = None,
                 cachedRadius = Some 10, cachedBorderWidth = Some 2,
                 cachedBackgroundColor = None, cachedOpacity = Some (1 / 2),
                 natural_width = 10, natural_height = 12,
                 allocation = Some \<lparr>box_x1 = 1000, box_y1 = 40, box_x2 = 1000, box_y2 = 40\<rparr>,
                 translation_y = - 2, opacity_target = Some (255 / 2), destroyed = True\<rparr>),
        trace := init_trace 1000 40 @
          [TimeoutAdd 1 0, TimeoutAdd 2 1, SourceRemove 2,
           PanelDisconnect 1, PanelDisconnect 2, RemoveChild 0, Destroy 0,
           PanelDisconnect 3, PanelDisconnect 4, RemoveChild 1, Destroy 1]\<rparr>"
  unfolding demo_scheduled
  unfolding demo_active
  by (simp add: remove_def cancel_eq disconnect_all_def remove_corner_def remove_connections_def
        panel_disconnect_def upd_corner_def log_event_def Let_def demo_world_def init_world_def)

text \<open>
  C2, at a concrete run: \<open>update()\<close>, one settings change, \<open>remove()\<close>, then 50 ms. After
  the settings change two timeouts are pending, one per corner. \<open>remove()\<close> cancels the
  one of the closure it still holds (the right corner's: \<open>update_corner\<close> overwrote the
  field) and leaves the left corner's timeout 1 pending. When the delay has elapsed that
  timeout fires and runs \<open>invalidateCache()\<close> and a style-changed pass on the destroyed
  left corner.
\<close>

theorem stale_timeout_after_remove:
  "timers (burst [(0, ''panel-corner-radius'')] (update demo_world)) = [(1, 50, 0), (2, 50, 1)] \<and>
   timers (remove (burst [(0, ''panel-corner-radius'')] (update demo_world))) = [(1, 50, 0)] \<and>
   destroyed (corners (remove (burst [(0, ''panel-corner-radius'')] (update demo_world))) 0) \<and>
   trace (advance 50 (remove (burst [(0, ''panel-corner-radius'')] (update demo_world)))) =
     trace (remove (burst [(0, ''panel-corner-radius'')] (update demo_world))) @
     callback_events 1 0 0 \<lparr>box_x1 = 0, box_y1 = 40, box_x2 = 10, box_y2 = 52\<rparr>"
proof -
  define R where "R = remove (burst [(0, ''panel-corner-radius'')] (update demo_world))"
  have two: "timers (burst [(0, ''panel-corner-radius'')] (update demo_world)) =
               [(1, 50, 0), (2, 50, 1)]"
    by (simp only: demo_scheduled) simp
  have R: "timers R = [(1, 50, 0)]" "destroyed (corners R 0)"
          "callback_corner (closures R 0) = 0"
          "corner_box 0 R = \<lparr>box_x1 = 0, box_y1 = 40, box_x2 = 10, box_y2 = 52\<rparr>"
    unfolding R_def
    unfolding demo_removed
    unfolding demo_active
    by (simp_all add: corner_box_def demo_world_def init_world_def)
  have f: "find (\<lambda>x. fst x = 1) (timers (R\<lparr>now := now R + 50\<rparr>)) = Some (1, 50, 0)"
    by (simp add: R(1))
  have due: "now R = 0"
    unfolding R_def
    unfolding demo_removed
    unfolding demo_active
    by (simp add: demo_world_def init_world_def)
  have adv: "advance 50 R = run_timeout 1 (R\<lparr>now := now R + 50\<rparr>)"
    by (simp add: advance_def Let_def R(1) due)
  have box: "corner_box 0 (R\<lparr>now := now R + 50\<rparr>) = corner_box 0 R"
    by (rule corner_box_same) simp_all
  have "trace (run_timeout 1 (R\<lparr>now := now R + 50\<rparr>)) =
      trace R @ callback_events 1 0 0 \<lparr>box_x1 = 0, box_y1 = 40, box_x2 = 10, box_y2 = 52\<rparr>"
    unfolding run_timeout_eq [OF f]
    using R(3) R(4) box by (simp add: callback_events_def)
  then have "trace (advance 50 R) =
      trace R @ callback_events 1 0 0 \<lparr>box_x1 = 0, box_y1 = 40, box_x2 = 10, box_y2 = 52\<rparr>"
    unfolding adv .
  with two R(1) R(2) show ?thesis
    unfolding R_def by simp
qed

section \<open>Allocations and style-changed passes over executions\<close>

lemma early_append_done:
  "StyleChanged c \<in> set xs \<Longrightarrow> early_allocations c (xs @ ys) = early_allocations c xs"
  by (induction xs) auto

lemma early_append_none:
  "\<forall>e \<in> set xs. \<not> about c e \<Longrightarrow> early_allocations c (xs @ ys) = early_allocations c ys"
  by (induction xs) (auto simp add: about_def split: event.splits)

lemma settled_append:
  assumes "settled w" "next_corner w' = next_corner w" "trace w' = trace w @ es"
      and "\<forall>e \<in> set es. \<forall>c. about c e \<longrightarrow> c < next_corner w"
  shows "settled w'"
  unfolding settled_def
proof (intro allI conjI impI)
  fix c assume "c < next_corner w'"
  with assms(1,2) have "StyleChanged c \<in> set (trace w)" "early_allocations c (trace w) = 2"
    by (simp_all add: settled_def)
  then show "StyleChanged c \<in> set (trace w')" "early_allocations c (trace w') = 2"
    by (simp_all add: assms(3) early_append_done)
next
  fix c assume c: "next_corner w' \<le> c"
  with assms(1,2) have "\<forall>e \<in> set (trace w). \<not> about c e"
    by (simp add: settled_def)
  moreover have "\<forall>e \<in> set es. \<not> about c e"
  proof
    fix e assume e: "e \<in> set es"
    show "\<not> about c e"
    proof
      assume "about c e"
      with assms(4) e have "c < next_corner w" by blast
      with c assms(2) show False by simp
    qed
  qed
  ultimately show "\<forall>e \<in> set (trace w'). \<not> about c e"
    by (auto simp add: assms(3))
qed

lemma call_debounced_fields:
  "panel_handlers (call_debounced d w) = panel_handlers w \<and>
   next_corner (call_debounced d w) = next_corner w \<and>
   connections (call_debounced d w) = connections w \<and>
   panel_children (call_debounced d w) = panel_children w \<and>
   (\<forall>x. callback_corner (closures (call_debounced d w) x) = callback_corner (closures w x)) \<and>
   set (timers (call_debounced d w)) \<subseteq>
     insert (next_source_id w, now w + wait (closures w d), d) (set (timers w)) \<and>
   (\<exists>es. trace (call_debounced d w) = trace w @ es \<and> (\<forall>e \<in> set es. \<forall>c. \<not> about c e))"
proof -
  have 1: "panel_handlers (call_debounced d w) = panel_handlers w"
          "next_corner (call_debounced d w) = next_corner w"
          "connections (call_debounced d w) = connections w"
          "panel_children (call_debounced d w) = panel_children w"
          "\<forall>x. callback_corner (closures (call_debounced d w) x) = callback_corner (closures w x)"
    by (simp_all add: call_debounced_eq)
  have 2: "set (timers (call_debounced d w)) \<subseteq>
     insert (next_source_id w, now w + wait (closures w d), d) (set (timers w))"
    by (cases "timeoutId (closures w d)") (auto simp add: call_debounced_eq)
  have 3: "\<exists>es. trace (call_debounced d w) = trace w @ es \<and> (\<forall>e \<in> set es. \<forall>c. \<not> about c e)"
  proof (cases "timeoutId (closures w d)")
    case None
    then have "trace (call_debounced d w) = trace w @ [TimeoutAdd (next_source_id w) d]"
      by (simp add: call_debounced_eq)
    moreover have "\<forall>e \<in> set [TimeoutAdd (next_source_id w) d]. \<forall>c. \<not> about c e"
      by (simp add: about_def)
    ultimately show ?thesis by blast
  next
    case (Some t)
    then have "trace (call_debounced d w) =
                 trace w @ [SourceRemove t, TimeoutAdd (next_source_id w) d]"
      by (simp add: call_debounced_eq)
    moreover have "\<forall>e \<in> set [SourceRemove t, TimeoutAdd (next_source_id w) d]. \<forall>c. \<not> about c e"
      by (simp add: about_def)
    ultimately show ?thesis by blast
  qed
  show ?thesis
    by (intro conjI) (rule 1 2 3)+
qed

lemma refs_call_debounced:
  assumes "refs_ok w" "callback_corner (closures w d) < next_corner w"
  shows "refs_ok (call_debounced d w)"
proof -
  note f = call_debounced_fields [of d w]
  have "\<forall>t \<in> set (timers (call_debounced d w)).
          callback_corner (closures w (snd (snd t))) < next_corner w"
  proof
    fix t assume "t \<in> set (timers (call_debounced d w))"
    with f have "t = (next_source_id w, now w + wait (closures w d), d) \<or> t \<in> set (timers w)"
      by blast
    with assms show "callback_corner (closures w (snd (snd t))) < next_corner w"
      by (auto simp add: refs_ok_def)
  qed
  with assms(1) f show ?thesis
    by (simp add: refs_ok_def)
qed

lemma settled_call_debounced:
  assumes "settled w"
  shows "settled (call_debounced d w)"
proof -
  from call_debounced_fields [of d w]
  obtain es where "trace (call_debounced d w) = trace w @ es" "\<forall>e \<in> set es. \<forall>c. \<not> about c e"
    and "next_corner (call_debounced d w) = next_corner w"
    by blast
  then show ?thesis
    using settled_append [OF assms, of "call_debounced d w" es] by blast
qed

lemma call_debounced_keeps:
  "next_corner (call_debounced d w) = next_corner w \<and>
   connections (call_debounced d w) = connections w \<and>
   callback_corner (closures (call_debounced d w) d') = callback_corner (closures w d')"
  by (simp add: call_debounced_eq)

lemma fold_call_debounced_ok:
  "settled w \<Longrightarrow> refs_ok w \<Longrightarrow> \<forall>d \<in> set ds. callback_corner (closures w d) < next_corner w \<Longrightarrow>
   settled (fold call_debounced ds w) \<and> refs_ok (fold call_debounced ds w)"
proof (induction ds arbitrary: w)
  case Nil
  then show ?case by simp
next
  case (Cons d ds)
  have 1: "settled (call_debounced d w)"
    using Cons.prems(1) by (rule settled_call_debounced)
  have 2: "refs_ok (call_debounced d w)"
    using Cons.prems(2,3) by (simp add: refs_call_debounced)
  have 3: "\<forall>d' \<in> set ds. callback_corner (closures (call_debounced d w) d') <
             next_corner (call_debounced d w)"
    using Cons.prems(3) by (simp add: call_debounced_keeps)
  from Cons.IH [OF 1 2 3] show ?case by simp
qed

lemma emit_changed_ok:
  assumes "settled w" "refs_ok w"
  shows "settled (emit_changed k w) \<and> refs_ok (emit_changed k w)"
proof -
  have "\<forall>d \<in> set (map snd (filter (\<lambda>c. fst c = ''changed::'' @ k) (connections w))).
          callback_corner (closures w d) < next_corner w"
    using assms(2) by (auto simp add: refs_ok_def)
  from fold_call_debounced_ok [OF assms this] show ?thesis
    by (simp add: emit_changed_def)
qed

lemma update_allocation_ok:
  assumes "settled w" "refs_ok w" "c < next_corner w"
  shows "settled (update_allocation c w) \<and> refs_ok (update_allocation c w) \<and>
         next_corner (update_allocation c w) = next_corner w \<and>
         panel_children (update_allocation c w) = panel_children w"
proof -
  have t: "trace (update_allocation c w) = trace w @ [Allocate c (corner_box c w)]"
    by (simp add: update_allocation_eq)
  have n: "next_corner (update_allocation c w) = next_corner w"
    by (simp add: update_allocation_eq)
  have a: "\<forall>e \<in> set [Allocate c (corner_box c w)]. \<forall>c'. about c' e \<longrightarrow> c' < next_corner w"
    using assms(3) by (simp add: about_def)
  have s: "settled (update_allocation c w)"
    using settled_append [OF assms(1) n t a] .
  have r: "refs_ok (update_allocation c w)"
    using assms(2) by (simp add: refs_ok_def update_allocation_eq)
  show ?thesis using s r by (simp add: update_allocation_eq)
qed

lemma vfunc_style_changed_ok:
  assumes "settled w" "refs_ok w" "c < next_corner w"
  shows "settled (vfunc_style_changed c w) \<and> refs_ok (vfunc_style_changed c w) \<and>
         next_corner (vfunc_style_changed c w) = next_corner w \<and>
         panel_children (vfunc_style_changed c w) = panel_children w"
proof -
  have t: "trace (vfunc_style_changed c w) = trace w @
         [InvalidateCache c, ThemeLookup c Radius, ThemeLookup c BorderWidth,
          ThemeLookup c Opacity, Allocate c (corner_box c w), StyleChanged c]"
    by (simp add: vfunc_style_changed_eq)
  have n: "next_corner (vfunc_style_changed c w) = next_corner w"
    by (simp add: vfunc_style_changed_eq)
  have a: "\<forall>e \<in> set [InvalidateCache c, ThemeLookup c Radius, ThemeLookup c BorderWidth,
          ThemeLookup c Opacity, Allocate c (corner_box c w), StyleChanged c].
            \<forall>c'. about c' e \<longrightarrow> c' < next_corner w"
    using assms(3) by (simp add: about_def)
  have s: "settled (vfunc_style_changed c w)"
    using settled_append [OF assms(1) n t a] .
  have r: "refs_ok (vfunc_style_changed c w)"
    using assms(2) by (simp add: refs_ok_def vfunc_style_changed_eq)
  show ?thesis using s r by (simp add: vfunc_style_changed_eq)
qed

lemma fold_update_allocation_ok:
  "settled w \<Longrightarrow> refs_ok w \<Longrightarrow> \<forall>c \<in> set cs. c < next_corner w \<Longrightarrow>
   settled (fold update_allocation cs w) \<and> refs_ok (fold update_allocation cs w)"
proof (induction cs arbitrary: w)
  case Nil
  then show ?case by simp
next
  case (Cons c cs)
  from Cons.prems have c: "c < next_corner w" by simp
  note u = update_allocation_ok [OF Cons.prems(1,2) c]
  from Cons.prems(3) u have "\<forall>c' \<in> set cs. c' < next_corner (update_allocation c w)" by simp
  with Cons.IH [of "update_allocation c w"] u show ?case by simp
qed

lemma fold_style_changed_ok:
  "settled w \<Longrightarrow> refs_ok w \<Longrightarrow> \<forall>c \<in> set cs. c < next_corner w \<Longrightarrow>
   settled (fold vfunc_style_changed cs w) \<and> refs_ok (fold vfunc_style_changed cs w)"
proof (induction cs arbitrary: w)
  case Nil
  then show ?case by simp
next
  case (Cons c cs)
  from Cons.prems have c: "c < next_corner w" by simp
  note u = vfunc_style_changed_ok [OF Cons.prems(1,2) c]
  from Cons.prems(3) u have "\<forall>c' \<in> set cs. c' < next_corner (vfunc_style_changed c w)" by simp
  with Cons.IH [of "vfunc_style_changed c w"] u show ?case by simp
qed

lemma panel_notify_ok:
  assumes "settled w" "refs_ok w"
  shows "settled (panel_notify sg w) \<and> refs_ok (panel_notify sg w)"
proof -
  have "\<forall>c \<in> set (map (\<lambda>h. snd (snd h)) (filter (\<lambda>h. fst (snd h) = sg) (panel_handlers w))).
          c < next_corner w"
    using assms(2) by (auto simp add: refs_ok_def)
  from fold_update_allocation_ok [OF assms this] show ?thesis
    by (simp add: panel_notify_def)
qed

lemma style_change_ok:
  assumes "settled w" "refs_ok w"
  shows "settled (fold vfunc_style_changed (panel_children w) w) \<and>
         refs_ok (fold vfunc_style_changed (panel_children w) w)"
proof -
  have "\<forall>c \<in> set (panel_children w). c < next_corner w"
    using assms(2) by (simp add: refs_ok_def)
  from fold_style_changed_ok [OF assms this] show ?thesis .
qed

lemma run_timeout_ok:
  assumes "settled w" "refs_ok w"
  shows "settled (run_timeout sid w) \<and> refs_ok (run_timeout sid w)"
proof (cases "find (\<lambda>x. fst x = sid) (timers w)")
  case None
  then have "run_timeout sid w = w" by (simp add: run_timeout_def)
  with assms show ?thesis by simp
next
  case (Some x)
  obtain sid' due d where x: "x = (sid', due, d)" by (cases x) auto
  from Some have "x \<in> set (timers w)"
    by (auto simp add: find_Some_iff in_set_conv_nth)
  with assms(2) x have c: "callback_corner (closures w d) < next_corner w"
    by (auto simp add: refs_ok_def)
  note r = run_timeout_eq [OF Some [unfolded x]]
  have t: "trace (run_timeout sid w) = trace w @
         [TimeoutFired sid d,
          InvalidateCache (callback_corner (closures w d)),
          InvalidateCache (callback_corner (closures w d)),
          ThemeLookup (callback_corner (closures w d)) Radius,
          ThemeLookup (callback_corner (closures w d)) BorderWidth,
          ThemeLookup (callback_corner (closures w d)) Opacity,
          Allocate (callback_corner (closures w d)) (corner_box (callback_corner (closures w d)) w),
          StyleChanged (callback_corner (closures w d))]"
    by (simp add: r)
  have n: "next_corner (run_timeout sid w) = next_corner w"
    by (simp add: r)
  have a: "\<forall>e \<in> set [TimeoutFired sid d,
          InvalidateCache (callback_corner (closures w d)),
          InvalidateCache (callback_corner (closures w d)),
          ThemeLookup (callback_corner (closures w d)) Radius,
          ThemeLookup (callback_corner (closures w d)) BorderWidth,
          ThemeLookup (callback_corner (closures w d)) Opacity,
          Allocate (callback_corner (closures w d)) (corner_box (callback_corner (closures w d)) w),
          StyleChanged (callback_corner (closures w d))].
            \<forall>c'. about c' e \<longrightarrow> c' < next_corner w"
    using c by (simp add: about_def)
  have s: "settled (run_timeout sid w)"
    using settled_append [OF assms(1) n t a] .
  have f: "panel_handlers (run_timeout sid w) = panel_handlers w"
          "connections (run_timeout sid w) = connections w"
          "panel_children (run_timeout sid w) = panel_children w"
          "timers (run_timeout sid w) = filter (\<lambda>x. fst x \<noteq> sid) (timers w)"
    by (simp_all add: r)
  have cb: "\<And>x. callback_corner (closures (run_timeout sid w) x) = callback_corner (closures w x)"
    by (simp add: r)
  have "refs_ok (run_timeout sid w)"
    using assms(2) unfolding refs_ok_def f n cb by simp
  with s show ?thesis by simp
qed

lemma fold_run_timeout_ok:
  "settled w \<Longrightarrow> refs_ok w \<Longrightarrow>
   settled (fold run_timeout sids w) \<and> refs_ok (fold run_timeout sids w)"
proof (induction sids arbitrary: w)
  case Nil
  then show ?case by simp
next
  case (Cons sid sids)
  from run_timeout_ok [OF Cons.prems, of sid] Cons.IH [of "run_timeout sid w"]
  show ?case by simp
qed

lemma advance_ok:
  assumes "settled w" "refs_ok w"
  shows "settled (advance ms w) \<and> refs_ok (advance ms w)"
proof -
  have s: "settled (w\<lparr>now := now w + ms\<rparr>)"
    using assms(1) by (simp add: settled_def)
  have r: "refs_ok (w\<lparr>now := now w + ms\<rparr>)"
    using assms(2) by (simp add: refs_ok_def)
  from fold_run_timeout_ok [OF s r] show ?thesis
    by (simp add: advance_def Let_def)
qed

lemma housekeeping_refl: "housekeeping w w"
  by (simp add: housekeeping_def)

lemma housekeeping_trans:
  assumes "housekeeping w w1" "housekeeping w1 w2"
  shows "housekeeping w w2"
proof -
  from assms(1) obtain es where es: "trace w1 = trace w @ es" "\<forall>e \<in> set es. \<forall>c. \<not> about c e"
    by (auto simp add: housekeeping_def)
  from assms(2) obtain fs where fs: "trace w2 = trace w1 @ fs" "\<forall>e \<in> set fs. \<forall>c. \<not> about c e"
    by (auto simp add: housekeeping_def)
  have "trace w2 = trace w @ (es @ fs)" "\<forall>e \<in> set (es @ fs). \<forall>c. \<not> about c e"
    using es fs by auto
  then have t: "\<exists>gs. trace w2 = trace w @ gs \<and> (\<forall>e \<in> set gs. \<forall>c. \<not> about c e)"
    by blast
  have r: "next_corner w2 = next_corner w"
          "set (panel_handlers w2) \<subseteq> set (panel_handlers w)"
          "set (timers w2) \<subseteq> set (timers w)"
          "\<forall>d. callback_corner (closures w2 d) = callback_corner (closures w d)"
          "set (connections w2) \<subseteq> set (connections w)"
          "set (panel_children w2) \<subseteq> set (panel_children w)"
    using assms by (simp_all add: housekeeping_def, blast+)
  show ?thesis
    unfolding housekeeping_def by (intro conjI) (rule r t)+
qed

lemma housekeeping_ok:
  assumes "settled w" "refs_ok w" "housekeeping w w'"
  shows "settled w' \<and> refs_ok w'"
proof -
  from assms(3) obtain es where es: "trace w' = trace w @ es" "\<forall>e \<in> set es. \<forall>c. \<not> about c e"
    and n: "next_corner w' = next_corner w"
    by (auto simp add: housekeeping_def)
  from es(2) have "\<forall>e \<in> set es. \<forall>c. about c e \<longrightarrow> c < next_corner w" by simp
  from settled_append [OF assms(1) n es(1) this] have s: "settled w'" .
  have h: "set (panel_handlers w') \<subseteq> set (panel_handlers w)"
          "set (timers w') \<subseteq> set (timers w)"
          "set (connections w') \<subseteq> set (connections w)"
          "set (panel_children w') \<subseteq> set (panel_children w)"
    using assms(3) by (simp_all add: housekeeping_def)
  have cb: "\<And>d. callback_corner (closures w' d) = callback_corner (closures w d)"
    using assms(3) by (simp add: housekeeping_def)
  have "refs_ok w'"
    using assms(2) h unfolding refs_ok_def n cb by blast
  with s show ?thesis by simp
qed

lemma housekeeping_cancel: "housekeeping w (cancel d w)"
proof (cases "timeoutId (closures w d)")
  case None
  then show ?thesis by (simp add: cancel_eq housekeeping_refl)
next
  case (Some t)
  have "\<forall>e \<in> set [SourceRemove t]. \<forall>c. \<not> about c e"
    by (simp add: about_def)
  moreover have "trace (cancel d w) = trace w @ [SourceRemove t]"
    using Some by (simp add: cancel_eq)
  ultimately have "\<exists>es. trace (cancel d w) = trace w @ es \<and> (\<forall>e \<in> set es. \<forall>c. \<not> about c e)"
    by blast
  then show ?thesis
    using Some by (simp add: housekeeping_def) (auto simp add: cancel_eq)
qed

lemma housekeeping_panel_disconnect: "housekeeping w (panel_disconnect hid w)"
proof -
  have "\<forall>e \<in> set [PanelDisconnect hid]. \<forall>c. \<not> about c e"
    by (simp add: about_def)
  moreover have "trace (panel_disconnect hid w) = trace w @ [PanelDisconnect hid]"
    by (simp add: panel_disconnect_def log_event_def)
  ultimately have "\<exists>es. trace (panel_disconnect hid w) = trace w @ es \<and>
      (\<forall>e \<in> set es. \<forall>c. \<not> about c e)"
    by blast
  then show ?thesis
    by (simp add: housekeeping_def) (auto simp add: panel_disconnect_def log_event_def)
qed

lemma housekeeping_upd_corner:
  "housekeeping w w' \<Longrightarrow> housekeeping w (upd_corner c f w')"
  by (simp add: housekeeping_def upd_corner_def)

lemma housekeeping_remove_connections: "housekeeping w (remove_connections c w)"
proof -
  define w1 where "w1 = (case position_changed_id (corners w c) of
                  Some hid \<Rightarrow>
                    if hid \<noteq> 0
                    then upd_corner c (\<lambda>c. c\<lparr>position_changed_id := None\<rparr>)
                           (panel_disconnect hid w)
                    else w
                | None \<Rightarrow> w)"
  have 1: "housekeeping w w1"
    unfolding w1_def
    by (auto simp add: housekeeping_refl housekeeping_upd_corner housekeeping_panel_disconnect
          split: option.splits)
  have 2: "housekeeping w1 (remove_connections c w)"
    unfolding remove_connections_def Let_def w1_def [symmetric]
    by (auto simp add: housekeeping_refl housekeeping_upd_corner housekeeping_panel_disconnect
          split: option.splits)
  from housekeeping_trans [OF 1 2] show ?thesis .
qed

lemma housekeeping_remove_corner: "housekeeping w (remove_corner c w)"
proof -
  have "\<forall>e \<in> set [RemoveChild c, Destroy c]. \<forall>c'. \<not> about c' e"
    by (simp add: about_def)
  moreover have "trace (remove_corner c w) = trace (remove_connections c w) @ [RemoveChild c, Destroy c]"
    by (simp add: remove_corner_def log_event_def upd_corner_def Let_def)
  ultimately have "\<exists>es. trace (remove_corner c w) = trace (remove_connections c w) @ es \<and>
      (\<forall>e \<in> set es. \<forall>c. \<not> about c e)"
    by blast
  then have "housekeeping (remove_connections c w) (remove_corner c w)"
    by (simp add: housekeeping_def)
       (auto simp add: remove_corner_def log_event_def upd_corner_def Let_def)
  from housekeeping_trans [OF housekeeping_remove_connections this] show ?thesis .
qed

lemma housekeeping_field:
  "housekeeping w w' \<Longrightarrow> housekeeping w (w'\<lparr>debouncedStyleUpdate := x\<rparr>) \<and>
     housekeeping w (w'\<lparr>panel_leftCorner := y\<rparr>) \<and>
     housekeeping w (w'\<lparr>panel_rightCorner := y\<rparr>) \<and>
     housekeeping w (w'\<lparr>console := z\<rparr>) \<and>
     housekeeping w (disconnect_all w')"
  by (simp add: housekeeping_def disconnect_all_def)

lemma housekeeping_log_debug: "housekeeping w (log_debug str w)"
  using housekeeping_field [OF housekeeping_refl, of w]
  by (simp add: log_debug_eq)

lemma housekeeping_remove: "housekeeping w (remove w)"
proof -
  define w1 where "w1 = (case debouncedStyleUpdate w of
                  Some d \<Rightarrow> (cancel d w)\<lparr>debouncedStyleUpdate := None\<rparr>
                | None \<Rightarrow> w)"
  define w2 where "w2 = disconnect_all w1"
  define w3 where "w3 = (case panel_leftCorner w2 of
                  Some c \<Rightarrow> (remove_corner c w2)\<lparr>panel_leftCorner := None\<rparr>
                | None \<Rightarrow> w2)"
  have r: "remove w = (case panel_rightCorner w3 of
           Some c \<Rightarrow> (remove_corner c w3)\<lparr>panel_rightCorner := None\<rparr>
         | None \<Rightarrow> w3)"
    unfolding remove_def Let_def w1_def w2_def w3_def ..
  have 1: "housekeeping w w1"
    unfolding w1_def
    using housekeeping_field [OF housekeeping_cancel] housekeeping_refl
    by (simp split: option.splits)
  have 2: "housekeeping w1 w2"
    unfolding w2_def using housekeeping_field [OF housekeeping_refl] by simp
  have 3: "housekeeping w2 w3"
    unfolding w3_def
    using housekeeping_field [OF housekeeping_remove_corner] housekeeping_refl
    by (simp split: option.splits)
  have 4: "housekeeping w3 (remove w)"
    unfolding r
    using housekeeping_field [OF housekeeping_remove_corner] housekeeping_refl
    by (simp split: option.splits)
  from housekeeping_trans [OF housekeeping_trans [OF housekeeping_trans [OF 1 2] 3] 4]
  show ?thesis .
qed

lemma early_allocations_none:
  "\<forall>e \<in> set tr. \<not> about c e \<Longrightarrow> early_allocations c tr = 0"
  using early_append_none [of tr c "[]"] by simp

lemma update_create:
  "update w = log_debug ''corners updated.''
                (create (remove (log_debug ''updating panel corners...'' w)))"
proof -
  have n: "fst (new_PanelCorner LEFT w') = next_corner w'" for w'
    by (simp add: new_PanelCorner_eq)
  have m: "fst (new_PanelCorner RIGHT ((snd (new_PanelCorner LEFT w'))\<lparr>panel_leftCorner := x\<rparr>)) =
           Suc (next_corner w')" for w' x
    by (simp add: new_PanelCorner_eq)
  show ?thesis
    unfolding update_def Let_def split_beta create_def n m ..
qed

lemma update_corner_fields:
  "next_corner (update_corner c w) = next_corner w \<and>
   trace (update_corner c w) = trace w @
     [InvalidateCache c, ThemeLookup c Radius, ThemeLookup c BorderWidth, ThemeLookup c Opacity,
      Allocate c (corner_box c w), StyleChanged c] \<and>
   panel_handlers (update_corner c w) = panel_handlers w \<and>
   timers (update_corner c w) = timers w \<and>
   closures (update_corner c w) = (closures w)
     (next_closure w := \<lparr>timeoutId = None, callback_corner = c, wait = 50\<rparr>) \<and>
   next_closure (update_corner c w) = Suc (next_closure w) \<and>
   connections (update_corner c w) = connections w @
     map (\<lambda>key. (''changed::'' @ key, next_closure w)) (keys (settings w)) \<and>
   panel_children (update_corner c w) = panel_children w @ [c] \<and>
   settings (update_corner c w) = settings w"
  by (simp add: update_corner_eq SETTINGS_DEBOUNCE_MS_def)

lemma new_PanelCorner_fields:
  "next_corner (snd (new_PanelCorner sd w)) = Suc (next_corner w) \<and>
   (\<exists>b. trace (snd (new_PanelCorner sd w)) = trace w @ [Allocate (next_corner w) b]) \<and>
   panel_handlers (snd (new_PanelCorner sd w)) = panel_handlers w @
     [(next_handler_id w, ''notify::position'', next_corner w),
      (next_handler_id w + 1, ''notify::size'', next_corner w)] \<and>
   timers (snd (new_PanelCorner sd w)) = timers w \<and>
   closures (snd (new_PanelCorner sd w)) = closures w \<and>
   next_closure (snd (new_PanelCorner sd w)) = next_closure w \<and>
   connections (snd (new_PanelCorner sd w)) = connections w \<and>
   panel_children (snd (new_PanelCorner sd w)) = panel_children w \<and>
   settings (snd (new_PanelCorner sd w)) = settings w"
  by (simp add: new_PanelCorner_eq)

lemma create_fields:
  "next_corner (create w) = Suc (Suc (next_corner w)) \<and>
   (\<exists>b1 b2 b3 b4. trace (create w) = trace w @
      [Allocate (next_corner w) b1, Allocate (Suc (next_corner w)) b2,
       InvalidateCache (next_corner w), ThemeLookup (next_corner w) Radius,
       ThemeLookup (next_corner w) BorderWidth, ThemeLookup (next_corner w) Opacity,
       Allocate (next_corner w) b3, StyleChanged (next_corner w),
       InvalidateCache (Suc (next_corner w)), ThemeLookup (Suc (next_corner w)) Radius,
       ThemeLookup (Suc (next_corner w)) BorderWidth, ThemeLookup (Suc (next_corner w)) Opacity,
       Allocate (Suc (next_corner w)) b4, StyleChanged (Suc (next_corner w))]) \<and>
   set (map (\<lambda>h. snd (snd h)) (panel_handlers (create w))) \<subseteq>
     set (map (\<lambda>h. snd (snd h)) (panel_handlers w)) \<union> {next_corner w, Suc (next_corner w)} \<and>
   timers (create w) = timers w \<and>
   closures (create w) = (closures w)
     (next_closure w := \<lparr>timeoutId = None, callback_corner = next_corner w, wait = 50\<rparr>,
      Suc (next_closure w) :=
        \<lparr>timeoutId = None, callback_corner = Suc (next_corner w), wait = 50\<rparr>) \<and>
   set (map snd (connections (create w))) \<subseteq>
     set (map snd (connections w)) \<union> {next_closure w, Suc (next_closure w)} \<and>
   panel_children (create w) = panel_children w @ [next_corner w, Suc (next_corner w)]"
proof -
  define w1 where "w1 = (snd (new_PanelCorner LEFT w))\<lparr>panel_leftCorner := Some (next_corner w)\<rparr>"
  define w2 where "w2 = (snd (new_PanelCorner RIGHT w1))
                          \<lparr>panel_rightCorner := Some (Suc (next_corner w))\<rparr>"
  define w3 where "w3 = update_corner (next_corner w) w2"
  have c: "create w = update_corner (Suc (next_corner w)) w3"
    unfolding create_def w1_def w2_def w3_def ..
  from new_PanelCorner_fields [of LEFT w] obtain b1 where
    f1: "next_corner w1 = Suc (next_corner w)"
        "trace w1 = trace w @ [Allocate (next_corner w) b1]"
        "panel_handlers w1 = panel_handlers w @
           [(next_handler_id w, ''notify::position'', next_corner w),
            (next_handler_id w + 1, ''notify::size'', next_corner w)]"
        "timers w1 = timers w" "closures w1 = closures w" "next_closure w1 = next_closure w"
        "connections w1 = connections w" "panel_children w1 = panel_children w"
        "settings w1 = settings w"
    unfolding w1_def by auto
  from new_PanelCorner_fields [of RIGHT w1] obtain b2 where
    f2: "next_corner w2 = Suc (Suc (next_corner w))"
        "trace w2 = trace w1 @ [Allocate (Suc (next_corner w)) b2]"
        "set (map (\<lambda>h. snd (snd h)) (panel_handlers w2)) \<subseteq>
           set (map (\<lambda>h. snd (snd h)) (panel_handlers w1)) \<union> {Suc (next_corner w)}"
        "timers w2 = timers w1" "closures w2 = closures w1" "next_closure w2 = next_closure w1"
        "connections w2 = connections w1" "panel_children w2 = panel_children w1"
        "settings w2 = settings w1"
    unfolding w2_def using f1(1) by auto
  note f3 = update_corner_fields [of "next_corner w" w2, folded w3_def]
  note f4 = update_corner_fields [of "Suc (next_corner w)" w3, folded c]
  have t: "trace (create w) = trace w @
      [Allocate (next_corner w) b1, Allocate (Suc (next_corner w)) b2,
       InvalidateCache (next_corner w), ThemeLookup (next_corner w) Radius,
       ThemeLookup (next_corner w) BorderWidth, ThemeLookup (next_corner w) Opacity,
       Allocate (next_corner w) (corner_box (next_corner w) w2), StyleChanged (next_corner w),
       InvalidateCache (Suc (next_corner w)), ThemeLookup (Suc (next_corner w)) Radius,
       ThemeLookup (Suc (next_corner w)) BorderWidth, ThemeLookup (Suc (next_corner w)) Opacity,
       Allocate (Suc (next_corner w)) (corner_box (Suc (next_corner w)) w3),
       StyleChanged (Suc (next_corner w))]"
    using f4 f3 f2(2) f1(2) by simp
  have 1: "next_corner (create w) = Suc (Suc (next_corner w))"
    using f4 f3 f2(1) by simp
  have 2: "\<exists>b1 b2 b3 b4. trace (create w) = trace w @
      [Allocate (next_corner w) b1, Allocate (Suc (next_corner w)) b2,
       InvalidateCache (next_corner w), ThemeLookup (next_corner w) Radius,
       ThemeLookup (next_corner w) BorderWidth, ThemeLookup (next_corner w) Opacity,
       Allocate (next_corner w) b3, StyleChanged (next_corner w),
       InvalidateCache (Suc (next_corner w)), ThemeLookup (Suc (next_corner w)) Radius,
       ThemeLookup (Suc (next_corner w)) BorderWidth, ThemeLookup (Suc (next_corner w)) Opacity,
       Allocate (Suc (next_corner w)) b4, StyleChanged (Suc (next_corner w))]"
    using t by blast
  have 3: "set (map (\<lambda>h. snd (snd h)) (panel_handlers (create w))) \<subseteq>
     set (map (\<lambda>h. snd (snd h)) (panel_handlers w)) \<union> {next_corner w, Suc (next_corner w)}"
    using f4 f3 f2(3) f1(3) by auto
  have 4: "timers (create w) = timers w"
    using f4 f3 f2(4) f1(4) by simp
  have 5: "closures (create w) = (closures w)
     (next_closure w := \<lparr>timeoutId = None, callback_corner = next_corner w, wait = 50\<rparr>,
      Suc (next_closure w) :=
        \<lparr>timeoutId = None, callback_corner = Suc (next_corner w), wait = 50\<rparr>)"
    using f4 f3 f2(5,6) f1(5,6) by simp
  have 6: "set (map snd (connections (create w))) \<subseteq>
     set (map snd (connections w)) \<union> {next_closure w, Suc (next_closure w)}"
    using f4 f3 f2(6,7) f1(6,7) by auto
  have 7: "panel_children (create w) = panel_children w @ [next_corner w, Suc (next_corner w)]"
    using f4 f3 f2(8) f1(8) by simp
  show ?thesis
    by (intro conjI) (rule 1 2 3 4 5 6 7)+
qed

lemma create_ok:
  assumes s: "settled w" and r: "refs_ok w"
  shows "settled (create w) \<and> refs_ok (create w)"
proof -
  define l where "l = next_corner w"
  from create_fields [of w] obtain b1 b2 b3 b4 where
    n: "next_corner (create w) = Suc (Suc l)"
    and t: "trace (create w) = trace w @
      [Allocate l b1, Allocate (Suc l) b2,
       InvalidateCache l, ThemeLookup l Radius, ThemeLookup l BorderWidth, ThemeLookup l Opacity,
       Allocate l b3, StyleChanged l,
       InvalidateCache (Suc l), ThemeLookup (Suc l) Radius,
       ThemeLookup (Suc l) BorderWidth, ThemeLookup (Suc l) Opacity,
       Allocate (Suc l) b4, StyleChanged (Suc l)]"
    and h: "set (map (\<lambda>h. snd (snd h)) (panel_handlers (create w))) \<subseteq>
              set (map (\<lambda>h. snd (snd h)) (panel_handlers w)) \<union> {l, Suc l}"
    and tm: "timers (create w) = timers w"
    and cl: "closures (create w) = (closures w)
              (next_closure w := \<lparr>timeoutId = None, callback_corner = l, wait = 50\<rparr>,
               Suc (next_closure w) := \<lparr>timeoutId = None, callback_corner = Suc l, wait = 50\<rparr>)"
    and cn: "set (map snd (connections (create w))) \<subseteq>
              set (map snd (connections w)) \<union> {next_closure w, Suc (next_closure w)}"
    and ch: "panel_children (create w) = panel_children w @ [l, Suc l]"
    unfolding l_def by blast
  define new where "new =
      [Allocate l b1, Allocate (Suc l) b2,
       InvalidateCache l, ThemeLookup l Radius, ThemeLookup l BorderWidth, ThemeLookup l Opacity,
       Allocate l b3, StyleChanged l,
       InvalidateCache (Suc l), ThemeLookup (Suc l) Radius,
       ThemeLookup (Suc l) BorderWidth, ThemeLookup (Suc l) Opacity,
       Allocate (Suc l) b4, StyleChanged (Suc l)]"
  have t': "trace (create w) = trace w @ new"
    using t by (simp add: new_def)
  have new_l: "early_allocations l new = 2" "StyleChanged l \<in> set new"
    by (simp_all add: new_def)
  have new_r: "early_allocations (Suc l) new = 2" "StyleChanged (Suc l) \<in> set new"
    by (simp_all add: new_def)
  have new_other: "\<forall>e \<in> set new. \<not> about c e" if "Suc (Suc l) \<le> c" for c
    using that by (simp add: new_def about_def)
  have old_none: "\<forall>e \<in> set (trace w). \<not> about c e" if "l \<le> c" for c
    using s that by (simp add: settled_def l_def)
  have A: "StyleChanged c \<in> set (trace w @ new) \<and> early_allocations c (trace w @ new) = 2"
    if "c < l" for c
  proof -
    from s that have "StyleChanged c \<in> set (trace w)" "early_allocations c (trace w) = 2"
      by (simp_all add: settled_def l_def)
    then show ?thesis by (simp add: early_append_done)
  qed
  have B: "StyleChanged l \<in> set (trace w @ new) \<and> early_allocations l (trace w @ new) = 2"
    using new_l early_append_none [OF old_none [of l], of new] by simp
  have C: "StyleChanged (Suc l) \<in> set (trace w @ new) \<and>
           early_allocations (Suc l) (trace w @ new) = 2"
    using new_r early_append_none [OF old_none [of "Suc l"], of new] by simp
  have S: "settled (create w)"
    unfolding settled_def n t'
  proof (intro allI conjI impI)
    fix c assume c: "c < Suc (Suc l)"
    then consider "c < l" | "c = l" | "c = Suc l" by linarith
    then have both:
      "StyleChanged c \<in> set (trace w @ new) \<and> early_allocations c (trace w @ new) = 2"
      using A B C by cases auto
    from both show "StyleChanged c \<in> set (trace w @ new)" by simp
    from both show "early_allocations c (trace w @ new) = 2" by simp
  next
    fix c assume "Suc (Suc l) \<le> c"
    then show "\<forall>e \<in> set (trace w @ new). \<not> about c e"
      using new_other [of c] old_none [of c] by auto
  qed
  have cb: "callback_corner (closures (create w) d) < Suc (Suc l)"
    if "callback_corner (closures w d) < l \<or> d = next_closure w \<or> d = Suc (next_closure w)" for d
    using that by (auto simp add: cl)
  have R1: "\<forall>h \<in> set (panel_handlers (create w)). snd (snd h) < Suc (Suc l)"
  proof
    fix h assume "h \<in> set (panel_handlers (create w))"
    then have "snd (snd h) \<in> set (map (\<lambda>h. snd (snd h)) (panel_handlers (create w)))"
      by simp
    with h have "snd (snd h) \<in> set (map (\<lambda>h. snd (snd h)) (panel_handlers w)) \<union> {l, Suc l}"
      by blast
    then show "snd (snd h) < Suc (Suc l)"
      using r by (auto simp add: refs_ok_def l_def)
  qed
  have R2: "\<forall>t \<in> set (timers (create w)).
              callback_corner (closures (create w) (snd (snd t))) < Suc (Suc l)"
  proof
    fix t assume "t \<in> set (timers (create w))"
    with tm r have "callback_corner (closures w (snd (snd t))) < l"
      by (simp add: refs_ok_def l_def)
    then show "callback_corner (closures (create w) (snd (snd t))) < Suc (Suc l)"
      using cb by simp
  qed
  have R3: "\<forall>x \<in> set (connections (create w)).
              callback_corner (closures (create w) (snd x)) < Suc (Suc l)"
  proof
    fix x assume "x \<in> set (connections (create w))"
    then have "snd x \<in> set (map snd (connections (create w)))" by simp
    with cn have "snd x \<in> set (map snd (connections w)) \<union> {next_closure w, Suc (next_closure w)}"
      by blast
    then have "callback_corner (closures w (snd x)) < l \<or> snd x = next_closure w \<or>
               snd x = Suc (next_closure w)"
      using r by (auto simp add: refs_ok_def l_def)
    then show "callback_corner (closures (create w) (snd x)) < Suc (Suc l)"
      using cb by simp
  qed
  have R4: "\<forall>c \<in> set (panel_children (create w)). c < Suc (Suc l)"
    using r by (auto simp add: ch refs_ok_def l_def)
  have "refs_ok (create w)"
    unfolding refs_ok_def n using R1 R2 R3 R4 by simp
  with S show ?thesis by simp
qed

lemma react_ok:
  assumes "settled w" "refs_ok w"
  shows "settled (react i w) \<and> refs_ok (react i w)"
proof (cases i)
  case DoUpdate
  have 1: "settled (remove (log_debug ''updating panel corners...'' w)) \<and>
           refs_ok (remove (log_debug ''updating panel corners...'' w))"
    using housekeeping_ok [OF assms housekeeping_trans [OF housekeeping_log_debug housekeeping_remove]] .
  have 2: "settled (create (remove (log_debug ''updating panel corners...'' w))) \<and>
           refs_ok (create (remove (log_debug ''updating panel corners...'' w)))"
    using create_ok 1 by simp
  from 2 housekeeping_ok [OF _ _ housekeeping_log_debug] DoUpdate show ?thesis
    by (simp add: update_create)
next
  case DoRemove
  with housekeeping_ok [OF assms housekeeping_remove] show ?thesis by simp
next
  case (SettingChanged key)
  with emit_changed_ok [OF assms] show ?thesis by simp
next
  case (Tick ms)
  with advance_ok [OF assms] show ?thesis by simp
next
  case (PanelNotify sg)
  with panel_notify_ok [OF assms] show ?thesis by simp
next
  case StyleChange
  with style_change_ok [OF assms] show ?thesis by simp
qed

lemma fold_react_ok:
  "settled w \<Longrightarrow> refs_ok w \<Longrightarrow> settled (fold react ins w) \<and> refs_ok (fold react ins w)"
proof (induction ins arbitrary: w)
  case Nil
  then show ?case by simp
next
  case (Cons i ins)
  from react_ok [OF Cons.prems, of i] Cons.IH [of "react i w"] show ?case by simp
qed

lemma init_ok:
  "settled (init_world s parse sf node pw ph pc) \<and> refs_ok (init_world s parse sf node pw ph pc)"
  by (simp add: settled_def refs_ok_def init_world_def)

text \<open>
  C9, as the code has it. In every execution, each corner that \<open>update()\<close> made has
  exactly two allocations before its first completed style-changed pass, and a corner
  that was not made has none: the constructor allocates once, while all four cached
  fields are still unset, and the first style-changed pass allocates once more, after its
  three lookups and before it completes (from the size that the corner had before the
  pass). Every other allocation of a corner follows a completed style-changed pass of it.
\<close>

theorem allocations_before_first_style_changed:
  "early_allocations c (trace (fold react ins (init_world s parse sf node pw ph pc))) =
     (if c < next_corner (fold react ins (init_world s parse sf node pw ph pc)) then 2 else 0) \<and>
   cached f (corners (snd (new_PanelCorner sd w)) (next_corner w)) = None \<and>
   (\<exists>b. trace (snd (new_PanelCorner sd w)) = trace w @ [Allocate (next_corner w) b]) \<and>
   trace (vfunc_style_changed this w) = trace w @
     [InvalidateCache this, ThemeLookup this Radius, ThemeLookup this BorderWidth,
      ThemeLookup this Opacity, Allocate this (corner_box this w), StyleChanged this]"
proof -
  from fold_react_ok [of "init_world s parse sf node pw ph pc" ins] init_ok
  have st: "settled (fold react ins (init_world s parse sf node pw ph pc))"
    by blast
  have 1: "early_allocations c (trace (fold react ins (init_world s parse sf node pw ph pc))) =
     (if c < next_corner (fold react ins (init_world s parse sf node pw ph pc)) then 2 else 0)"
  proof (cases "c < next_corner (fold react ins (init_world s parse sf node pw ph pc))")
    case True
    with st show ?thesis by (simp add: settled_def)
  next
    case False
    with st have "\<forall>e \<in> set (trace (fold react ins (init_world s parse sf node pw ph pc))).
                    \<not> about c e"
      by (simp add: settled_def)
    from early_allocations_none [OF this] False show ?thesis by simp
  qed
  have 2: "cached f (corners (snd (new_PanelCorner sd w)) (next_corner w)) = None"
    by (cases f) (simp_all add: new_PanelCorner_eq cached_def)
  have 3: "\<exists>b. trace (snd (new_PanelCorner sd w)) = trace w @ [Allocate (next_corner w) b]"
    by (simp add: new_PanelCorner_eq)
  have 4: "trace (vfunc_style_changed this w) = trace w @
     [InvalidateCache this, ThemeLookup this Radius, ThemeLookup this BorderWidth,
      ThemeLookup this Opacity, Allocate this (corner_box this w), StyleChanged this]"
    by (simp add: vfunc_style_changed_eq)
  show ?thesis
    by (intro conjI) (rule 1 2 3 4)+
qed

text \<open>
  C9, as the claim words it (no allocation before a completed style-changed pass), fails
  for the first \<open>update()\<close> in the concrete state: the constructor of the left corner
  allocates at once, and two allocations of that corner precede its first completed pass.
\<close>

theorem constructor_allocates_first:
  "trace (snd (new_PanelCorner LEFT demo_world)) =
     [Allocate 0 \<lparr>box_x1 = 0, box_y1 = 40, box_x2 = 0, box_y2 = 40\<rparr>] \<and>
   early_allocations 0 (trace (fold react [DoUpdate] demo_world)) = 2"
proof -
  have "trace (update demo_world) = init_trace 1000 40"
    unfolding demo_world_def update_init_eq by simp
  then have "early_allocations 0 (trace (fold react [DoUpdate] demo_world)) = 2"
    by (simp add: init_trace_def)
  moreover have "trace (snd (new_PanelCorner LEFT demo_world)) =
     [Allocate 0 \<lparr>box_x1 = 0, box_y1 = 40, box_x2 = 0, box_y2 = 40\<rparr>]"
    by (simp add: new_PanelCorner_eq demo_world_def init_world_def)
  ultimately show ?thesis by simp
qed

section \<open>Bursts of settings changes\<close>

































end
